theory Spec2Isabelle
  imports Main
begin

section \<open>Values, messages and stream chunks\<close>

text \<open>
  The development follows \<^verbatim>\<open>openai_streaming_tools.py\<close>: the generator
  \<^verbatim>\<open>ask_question\<close>, the two example tools \<^verbatim>\<open>fun_1\<close> and
  \<^verbatim>\<open>fun_2\<close>, and the module-level list \<^verbatim>\<open>history\<close>.

  A Python value that a tool yields, that \<^verbatim>\<open>json.loads\<close> returns or that
  \<^verbatim>\<open>json.dumps\<close> takes. A dict is the list of its items in insertion order (the
  keys are strings and distinct); a float is named by its \<^verbatim>\<open>repr\<close>.
\<close>

datatype pyval =
    PNone
  | PBool bool
  | PInt int
  | PFloat string
  | PStr string
  | PList "pyval list"
  | PDict "(string \<times> pyval) list"

text \<open>Python's truth value of an object, as \<^verbatim>\<open>if x:\<close> tests it.\<close>

fun truthy :: "pyval \<Rightarrow> bool" where
  "truthy PNone = False"
| "truthy (PBool b) = b"
| "truthy (PInt n) = (n \<noteq> 0)"
| "truthy (PFloat r) = (r \<noteq> ''0.0'' \<and> r \<noteq> ''-0.0'')"
| "truthy (PStr s) = (s \<noteq> [])"
| "truthy (PList xs) = (xs \<noteq> [])"
| "truthy (PDict d) = (d \<noteq> [])"

text \<open>
  Exceptions. \<^verbatim>\<open>KeyboardInterrupt\<close> is the one that the outer \<^verbatim>\<open>try\<close> of
  \<^verbatim>\<open>ask_question\<close> catches; every other exception is \<open>Error\<close> with the name of
  its class. An interruption is taken to arrive while the program waits for the provider:
  when a stream is opened or when its next chunk is asked for.
\<close>

datatype exn = KeyboardInterrupt | Error string

text \<open>
  What the last item of \<^verbatim>\<open>fun_2\<close> can raise: \<^verbatim>\<open>a+b\<close> raises
  \<^verbatim>\<open>TypeError\<close> or \<^verbatim>\<open>OverflowError\<close>, and formatting the sum raises
  \<^verbatim>\<open>ValueError\<close> when it is an integer with more digits than the interpreter
  converts to a string.
\<close>

datatype py_error = TypeError | OverflowError | ValueError

text \<open>
  A lazily produced sequence (a generator or a response stream): the items it produces,
  then either exhaustion (\<open>None\<close>) or the exception raised when the next item is asked for.
\<close>

type_synonym 'a lazy = "'a list \<times> exn option"

text \<open>The entries of \<^verbatim>\<open>history\<close>, and of the \<^verbatim>\<open>messages\<close> of a request.\<close>

record tool_call =
  call_id :: string
  call_name :: string
  call_arguments :: string

datatype message =
    System string
  | User string
  | AssistantToolCall "tool_call list"
  | ToolResult string string string
  | AssistantText string

text \<open>
  \<open>ToolResult tool_call_id name content\<close> is
  \<^verbatim>\<open>{"role": "tool", "tool_call_id": .., "name": .., "content": ..}\<close>;
  \<open>AssistantText c\<close> is \<^verbatim>\<open>{"role": "assistant", "content": c}\<close>.
\<close>

text \<open>
  What \<^verbatim>\<open>ask_question\<close> reads of a streamed chunk. An attribute that is missing
  or \<^verbatim>\<open>None\<close> is \<open>None\<close>.
\<close>

record tool_call_delta =
  tc_id :: "string option"
  tc_name :: "string option"
  tc_arguments :: "string option"

record choice_delta =
  content :: "string option"
  tool_calls :: "tool_call_delta list option"

record chunk =
  choices :: "choice_delta list option"

text \<open>The keyword arguments of \<^verbatim>\<open>client.chat.completions.create\<close>.\<close>

record request =
  req_model :: string
  req_stream :: bool
  req_messages :: "message list"
  req_tools :: "pyval list option"
  req_tool_choice :: "string option"
  req_temperature :: int

text \<open>
  The collaborators that are not code of this repository: the completion provider, the
  \<^verbatim>\<open>json\<close> module, the clock, and the interpreter's \<^verbatim>\<open>+\<close> and
  \<^verbatim>\<open>str\<close> on values whose type is known only at run time.
  \<open>loads\<close> is \<open>Inl e\<close> where \<^verbatim>\<open>json.loads\<close> raises \<open>e\<close>:
  \<open>Error ''JSONDecodeError''\<close> on a text that is not a complete JSON document, and
  another exception on some texts that are (\<^verbatim>\<open>ValueError\<close> on an integer literal
  with more digits than the interpreter converts, \<^verbatim>\<open>RecursionError\<close> on a nesting
  that is too deep). The first argument of \<open>dumps\<close> is
  \<^verbatim>\<open>ensure_ascii\<close>; \<open>time_ms k\<close> is the value of
  \<^verbatim>\<open>int(time.time() * 1000)\<close> at the \<open>k\<close>-th reading of the clock.
\<close>

record env =
  create :: "request \<Rightarrow> exn + chunk lazy"
  loads :: "string \<Rightarrow> exn + pyval"
  dumps :: "bool \<Rightarrow> pyval \<Rightarrow> string"
  time_ms :: "nat \<Rightarrow> int"
  py_add :: "pyval \<Rightarrow> pyval \<Rightarrow> py_error + pyval"
  py_str :: "pyval \<Rightarrow> py_error + string"

section \<open>The example tools\<close>

definition fun_1 :: "pyval lazy" where
  "fun_1 =
     ([PDict [(''display'', PStr ''fun_1fun_1fun_1fun_1''), (''store'', PBool True)],
       PStr ''LAST OF: fun_1''],
      None)"

definition fun_2_dict :: pyval where
  "fun_2_dict =
     PDict [(''fun_2_string'', PStr ''Hi this is fun_2''),
            (''fun_2_int'', PInt 67),
            (''fun_2_float'', PFloat ''3.14''),
            (''fun_2_bool'', PBool True),
            (''fun_2_dict'', PDict [(''fun_2_test1'', PStr ''test1''),
                                    (''fun_2_test2'', PStr ''test2'')])]"

text \<open>
  \<^verbatim>\<open>fun_2(**args)\<close> binds the parameters \<^verbatim>\<open>a\<close> and \<^verbatim>\<open>b\<close> when
  the call is made: an \<^verbatim>\<open>args\<close> that is not a dict, or a dict whose keys are not
  exactly \<^verbatim>\<open>a\<close> and \<^verbatim>\<open>b\<close>, raises \<^verbatim>\<open>TypeError\<close> before any item
  is produced.
\<close>

definition bind_fun_2 :: "pyval \<Rightarrow> exn + pyval \<times> pyval" where
  "bind_fun_2 args =
     (case args of
        PDict kw \<Rightarrow>
          (if \<exists>k \<in> set (map fst kw). k \<noteq> ''a'' \<and> k \<noteq> ''b'' then Inl (Error ''TypeError'')
           else (case (map_of kw ''a'', map_of kw ''b'') of
                   (Some a, Some b) \<Rightarrow> Inr (a, b)
                 | _ \<Rightarrow> Inl (Error ''TypeError'')))
      | _ \<Rightarrow> Inl (Error ''TypeError''))"

text \<open>
  The items of \<^verbatim>\<open>fun_2\<close> in the order of its \<^verbatim>\<open>yield\<close>s. The
  \<^verbatim>\<open>print\<close> to the terminal is not part of the sequence. The last item evaluates
  \<^verbatim>\<open>a+b\<close> and formats the sum; either can raise after all the other items were
  produced.
\<close>

definition fun_2_items :: "pyval list" where
  "fun_2_items =
     fst fun_1 @
     [PStr ''fun_2 plain string test ** only be showed in terminal **'',
      PDict [(''display'', PStr ''fun_2 using proper yield format ** should be stored in history and be showed in terminal **''),
             (''store'', PBool True)],
      PDict [(''display'', PStr ''fun_2 using proper yield format ** should not be stored in history and be showed in terminal **''),
             (''store'', PBool False)],
      PDict [(''display'', PDict [(''DICT fun_2'', PStr ''this should be stored in chat history''),
                                  (''success'', PBool True),
                                  (''result'', fun_2_dict)]),
             (''code'', PInt 200),
             (''store'', PBool True)],
      PNone,
      PDict []]"

definition exn_of :: "py_error \<Rightarrow> exn" where
  "exn_of e =
     (case e of
        TypeError \<Rightarrow> Error ''TypeError''
      | OverflowError \<Rightarrow> Error ''OverflowError''
      | ValueError \<Rightarrow> Error ''ValueError'')"

definition fun_2 :: "env \<Rightarrow> pyval \<Rightarrow> pyval lazy" where
  "fun_2 env args =
     (case bind_fun_2 args of
        Inl e \<Rightarrow> ([], Some e)
      | Inr (a, b) \<Rightarrow>
          (case py_add env a b of
             Inl e \<Rightarrow> (fun_2_items, Some (exn_of e))
           | Inr r \<Rightarrow>
               (case py_str env r of
                  Inl e \<Rightarrow> (fun_2_items, Some (exn_of e))
                | Inr t \<Rightarrow>
                    (fun_2_items @
                       [PDict [(''display'', PStr (''result = '' @ t)),
                               (''store'', PBool True)]],
                     None))))"

definition fun_2_function :: pyval where
  "fun_2_function =
     PDict [(''type'', PStr ''function''),
            (''function'',
             PDict [(''name'', PStr ''fun_2''),
                    (''description'', PStr ''Add two integers and stream partial chunks (simulation).''),
                    (''parameters'',
                     PDict [(''type'', PStr ''object''),
                            (''properties'',
                             PDict [(''a'', PDict [(''type'', PStr ''integer''),
                                                   (''description'', PStr ''First integer to add'')]),
                                    (''b'', PDict [(''type'', PStr ''integer''),
                                                   (''description'', PStr ''Second integer to add'')])]),
                            (''required'', PList [PStr ''a'', PStr ''b''])])])]"

section \<open>The state of one call of \<^verbatim>\<open>ask_question\<close>\<close>

text \<open>
  The module-level \<^verbatim>\<open>history\<close>, the locals of \<^verbatim>\<open>ask_question\<close>, the values
  it has yielded to its caller so far, the requests it has sent to the provider so far, and
  the number of clock readings so far. The local \<^verbatim>\<open>tool_output\<close> is assigned once
  and never read; it is left out.
\<close>

record state =
  history :: "message list"
  collected :: string
  partial_args :: string
  tool_name :: "string option"
  tool_output_chunks :: "pyval list"
  yielded :: "pyval list"
  requests :: "request list"
  ticks :: nat

text \<open>How a piece of code is left: normally, or by an exception; both with the state reached.\<close>

datatype outcome = Done state | Raised exn state

fun state_of :: "outcome \<Rightarrow> state" where
  "state_of (Done s) = s"
| "state_of (Raised e s) = s"

fun raised_of :: "outcome \<Rightarrow> exn option" where
  "raised_of (Done s) = None"
| "raised_of (Raised e s) = Some e"

section \<open>Decimal strings\<close>

definition digit_char :: "nat \<Rightarrow> char" where
  "digit_char d = ''0123456789'' ! (d mod 10)"

function str_nat :: "nat \<Rightarrow> string" where
  "str_nat n = (if n < 10 then [digit_char n] else str_nat (n div 10) @ [digit_char (n mod 10)])"
  by pat_completeness auto
termination
  by (relation "measure (\<lambda>n. n)") auto

declare str_nat.simps [simp del]

definition str_int :: "int \<Rightarrow> string" where
  "str_int i = (if i < 0 then CHR ''-'' # str_nat (nat (- i)) else str_nat (nat i))"

section \<open>Normalising one yielded item (lines 180--199)\<close>

fun setitem :: "string \<Rightarrow> pyval \<Rightarrow> (string \<times> pyval) list \<Rightarrow> (string \<times> pyval) list" where
  "setitem k v [] = [(k, v)]"
| "setitem k v ((k', v') # d) = (if k' = k then (k, v) # d else (k', v') # setitem k v d)"

definition has_key :: "string \<Rightarrow> (string \<times> pyval) list \<Rightarrow> bool" where
  "has_key k d = (k \<in> set (map fst d))"

definition normalize :: "pyval \<Rightarrow> (string \<times> pyval) list" where
  "normalize yield_part =
     (case yield_part of
        PDict d \<Rightarrow>
          (let d1 = (if \<not> has_key ''store'' d then setitem ''store'' (PBool False) d else d)
           in if \<not> has_key ''display'' d1
              then (let display_data = filter (\<lambda>(k, v). k \<noteq> ''store'') d1
                    in if display_data \<noteq> []
                       then setitem ''display'' (PDict display_data) d1
                       else setitem ''display'' (PStr []) d1)
              else d1)
      | _ \<Rightarrow> [(''display'', yield_part), (''store'', PBool False)])"

text \<open>\<^verbatim>\<open>d.get(k, default)\<close>.\<close>

definition dict_get :: "(string \<times> pyval) list \<Rightarrow> string \<Rightarrow> pyval \<Rightarrow> pyval" where
  "dict_get d k dflt = (case map_of d k of Some v \<Rightarrow> v | None \<Rightarrow> dflt)"

section \<open>Running the tool (lines 179--209)\<close>

text \<open>
  The body of the loop over the tool's items: normalise, read \<^verbatim>\<open>display\<close>
  (a missing key would raise \<^verbatim>\<open>KeyError\<close>), yield the display value when it is
  truthy, append it to \<^verbatim>\<open>tool_output_chunks\<close> when \<^verbatim>\<open>store\<close> is truthy.
\<close>

definition consume_yield :: "pyval \<Rightarrow> state \<Rightarrow> outcome" where
  "consume_yield raw s =
     (let yield_part = normalize raw
      in case map_of yield_part ''display'' of
           None \<Rightarrow> Raised (Error ''KeyError'') s
         | Some display_value \<Rightarrow>
             (let s1 = (if truthy display_value
                        then s\<lparr>yielded := yielded s @ [display_value]\<rparr> else s);
                  s2 = (if truthy (dict_get yield_part ''store'' (PBool False))
                        then s1\<lparr>tool_output_chunks := tool_output_chunks s1 @ [display_value]\<rparr>
                        else s1)
              in Done s2))"

fun consume_yields :: "pyval list \<Rightarrow> state \<Rightarrow> outcome" where
  "consume_yields [] s = Done s"
| "consume_yields (raw # rest) s =
     (case consume_yield raw s of
        Done s' \<Rightarrow> consume_yields rest s'
      | Raised e s' \<Rightarrow> Raised e s')"

definition run_tool :: "pyval lazy \<Rightarrow> state \<Rightarrow> outcome" where
  "run_tool gen s =
     (case consume_yields (fst gen) s of
        Raised e s' \<Rightarrow> Raised e s'
      | Done s' \<Rightarrow> (case snd gen of None \<Rightarrow> Done s' | Some e \<Rightarrow> Raised e s'))"

section \<open>Dispatch after a successful parse (lines 163--219)\<close>

text \<open>
  The handler called is always \<^verbatim>\<open>fun_2\<close>; \<open>name\<close> and \<open>tool_id\<close> only go
  into the two messages. An exception of the tool leaves before the tool message is
  appended and before \<^verbatim>\<open>partial_args\<close> is reset.
\<close>

definition dispatch :: "env \<Rightarrow> string \<Rightarrow> string \<Rightarrow> pyval \<Rightarrow> state \<Rightarrow> outcome" where
  "dispatch env name tool_id args s =
     (let s1 = s\<lparr>history := history s @
                  [AssistantToolCall
                     [\<lparr>call_id = tool_id, call_name = name,
                       call_arguments = dumps env True args\<rparr>]]\<rparr>
      in case run_tool (fun_2 env args) s1 of
           Raised e s2 \<Rightarrow> Raised e s2
         | Done s2 \<Rightarrow>
             Done (s2\<lparr>history := history s2 @
                         [ToolResult tool_id name
                            (dumps env False (PList (tool_output_chunks s2)))],
                      partial_args := []\<rparr>))"

section \<open>One tool-call fragment (lines 149--222)\<close>

text \<open>\<^verbatim>\<open>x or default\<close> for an optional string: \<^verbatim>\<open>None\<close> and \<^verbatim>\<open>""\<close> are falsy.\<close>

definition nonempty :: "string option \<Rightarrow> string option" where
  "nonempty x = (case x of Some v \<Rightarrow> (if v \<noteq> [] then Some v else None) | None \<Rightarrow> None)"

definition name_of :: "tool_call_delta \<Rightarrow> string" where
  "name_of tc = (case nonempty (tc_name tc) of Some n \<Rightarrow> n | None \<Rightarrow> ''worlds'')"

text \<open>The clock is read only when the fragment has no id (\<^verbatim>\<open>or\<close> short-circuits).\<close>

definition id_of :: "env \<Rightarrow> tool_call_delta \<Rightarrow> state \<Rightarrow> string \<times> state" where
  "id_of env tc s =
     (case nonempty (tc_id tc) of
        Some i \<Rightarrow> (i, s)
      | None \<Rightarrow> (''call_'' @ str_int (time_ms env (ticks s)), s\<lparr>ticks := Suc (ticks s)\<rparr>))"

text \<open>
  The clause \<^verbatim>\<open>except json.JSONDecodeError: pass\<close> (lines 220--222) encloses the
  parse and the whole dispatch: it ends the step normally when \<^verbatim>\<open>json.loads\<close>
  raises \<^verbatim>\<open>JSONDecodeError\<close>, and it would do the same if the dispatch raised an
  exception of that class. Any other exception of the parse or of the dispatch goes on.
\<close>

fun except_decode :: "outcome \<Rightarrow> outcome" where
  "except_decode (Raised (Error n) s) =
     (if n = ''JSONDecodeError'' then Done s else Raised (Error n) s)"
| "except_decode out = out"

definition handle_tool_call :: "env \<Rightarrow> tool_call_delta \<Rightarrow> state \<Rightarrow> outcome" where
  "handle_tool_call env tc s =
     (let s1 = s\<lparr>tool_name := Some (name_of tc)\<rparr>;
          (tool_id, s2) = id_of env tc s1
      in case nonempty (tc_arguments tc) of
           None \<Rightarrow> Done s2
         | Some args_piece \<Rightarrow>
             (let s3 = s2\<lparr>partial_args := partial_args s2 @ args_piece\<rparr>
              in except_decode
                   (case loads env (partial_args s3) of
                      Inl e \<Rightarrow> Raised e s3
                    | Inr args \<Rightarrow> dispatch env (name_of tc) tool_id args s3)))"

fun handle_tool_calls :: "env \<Rightarrow> tool_call_delta list \<Rightarrow> state \<Rightarrow> outcome" where
  "handle_tool_calls env [] s = Done s"
| "handle_tool_calls env (tc # tcs) s =
     (case handle_tool_call env tc s of
        Done s' \<Rightarrow> handle_tool_calls env tcs s'
      | Raised e s' \<Rightarrow> Raised e s')"

section \<open>The two streaming phases (lines 134--245)\<close>

text \<open>A text delta is yielded and added to \<^verbatim>\<open>collected\<close> when it is a non-empty string.\<close>

definition take_text :: "string option \<Rightarrow> state \<Rightarrow> state" where
  "take_text delta s =
     (case nonempty delta of
        Some d \<Rightarrow> s\<lparr>yielded := yielded s @ [PStr d], collected := collected s @ d\<rparr>
      | None \<Rightarrow> s)"

definition handle_chunk :: "env \<Rightarrow> chunk \<Rightarrow> state \<Rightarrow> outcome" where
  "handle_chunk env c s =
     (case choices c of
        None \<Rightarrow> Done s
      | Some [] \<Rightarrow> Done s
      | Some (choice # _) \<Rightarrow>
          (let s1 = take_text (content choice) s
           in case tool_calls choice of
                None \<Rightarrow> Done s1
              | Some tcs \<Rightarrow> handle_tool_calls env tcs s1))"

definition handle_followup_chunk :: "chunk \<Rightarrow> state \<Rightarrow> state" where
  "handle_followup_chunk c s =
     (case choices c of
        None \<Rightarrow> s
      | Some [] \<Rightarrow> s
      | Some (choice # _) \<Rightarrow> take_text (content choice) s)"

fun primary_loop :: "env \<Rightarrow> chunk list \<Rightarrow> state \<Rightarrow> outcome" where
  "primary_loop env [] s = Done s"
| "primary_loop env (c # cs) s =
     (case handle_chunk env c s of
        Done s' \<Rightarrow> primary_loop env cs s'
      | Raised e s' \<Rightarrow> Raised e s')"

definition phase1 :: "env \<Rightarrow> chunk lazy \<Rightarrow> state \<Rightarrow> outcome" where
  "phase1 env stream s =
     (case primary_loop env (fst stream) s of
        Raised e s' \<Rightarrow> Raised e s'
      | Done s' \<Rightarrow> (case snd stream of None \<Rightarrow> Done s' | Some e \<Rightarrow> Raised e s'))"

definition system_prompt :: message where
  "system_prompt =
     System ''You are a helpful assistant. Add a short explanatory line after tool calls.''"

definition primary_request :: "message list \<Rightarrow> request" where
  "primary_request h =
     \<lparr>req_model = ''gpt-5-mini-2025-08-07'', req_stream = True,
      req_messages = system_prompt # h, req_tools = Some [fun_2_function],
      req_tool_choice = Some ''auto'', req_temperature = 1\<rparr>"

definition followup_request :: "message list \<Rightarrow> request" where
  "followup_request h =
     \<lparr>req_model = ''gpt-4o-mini'', req_stream = True,
      req_messages = system_prompt # h, req_tools = None,
      req_tool_choice = None, req_temperature = 1\<rparr>"

definition followup_wanted :: "state \<Rightarrow> bool" where
  "followup_wanted s = (tool_output_chunks s \<noteq> [] \<and> nonempty (tool_name s) \<noteq> None)"

definition phase2 :: "env \<Rightarrow> state \<Rightarrow> outcome" where
  "phase2 env s =
     (if followup_wanted s
      then (let rq = followup_request (history s);
                s1 = s\<lparr>requests := requests s @ [rq]\<rparr>
            in case create env rq of
                 Inl e \<Rightarrow> Raised e s1
               | Inr followup \<Rightarrow>
                   (let s2 = foldl (\<lambda>st c. handle_followup_chunk c st) s1 (fst followup)
                    in case snd followup of None \<Rightarrow> Done s2 | Some e \<Rightarrow> Raised e s2))
      else Done s)"

text \<open>The body of the \<^verbatim>\<open>try\<close>.\<close>

definition try_body :: "env \<Rightarrow> chunk lazy \<Rightarrow> state \<Rightarrow> outcome" where
  "try_body env stream s =
     (case phase1 env stream s of
        Raised e s' \<Rightarrow> Raised e s'
      | Done s' \<Rightarrow> phase2 env s')"

section \<open>\<^verbatim>\<open>ask_question\<close>\<close>

definition interrupted_marker :: string where
  "interrupted_marker = CHR 0x0A # ''[INTERRUPTED]'' @ [CHR 0x0A]"

text \<open>
  The state when the \<^verbatim>\<open>try\<close> is entered: the user message is appended, the
  request for the primary stream is made, the locals have their initial values.
\<close>

definition start_state :: "string \<Rightarrow> message list \<Rightarrow> state" where
  "start_state ask h =
     \<lparr>history = h @ [User ask], collected = [], partial_args = [], tool_name = None,
      tool_output_chunks = [], yielded = [], requests = [primary_request (h @ [User ask])],
      ticks = 0\<rparr>"

text \<open>The \<^verbatim>\<open>finally\<close> clause.\<close>

definition finalize :: "state \<Rightarrow> state" where
  "finalize s = s\<lparr>history := history s @ [AssistantText (collected s)]\<rparr>"

text \<open>
  How the \<^verbatim>\<open>try\<close> statement is left, given how its body was left:
  \<^verbatim>\<open>except KeyboardInterrupt\<close> yields the marker and ends normally; any other exception
  goes on to the caller; the \<^verbatim>\<open>finally\<close> clause runs in every case.
\<close>

fun handle_exit :: "outcome \<Rightarrow> outcome" where
  "handle_exit (Done s) = Done (finalize s)"
| "handle_exit (Raised KeyboardInterrupt s) =
     Done (finalize (s\<lparr>yielded := yielded s @ [PStr interrupted_marker]\<rparr>))"
| "handle_exit (Raised (Error n) s) = Raised (Error n) (finalize s)"

text \<open>
  \<open>ask_question env ask h\<close> is the call \<^verbatim>\<open>ask_question(ask)\<close> with
  \<^verbatim>\<open>history == h\<close>, consumed by its caller to the end. The request for the primary
  stream is made before the \<^verbatim>\<open>try\<close>: an exception there leaves without the
  \<^verbatim>\<open>finally\<close>.
\<close>

definition ask_question :: "env \<Rightarrow> string \<Rightarrow> message list \<Rightarrow> outcome" where
  "ask_question env ask h =
     (let s0 = start_state ask h
      in case create env (primary_request (history s0)) of
           Inl e \<Rightarrow> Raised e s0
         | Inr stream \<Rightarrow> handle_exit (try_body env stream s0))"

section \<open>Notions used to state the properties\<close>

text \<open>The display value and the store flag of a raw item after normalisation.\<close>

definition display_of :: "pyval \<Rightarrow> pyval" where
  "display_of raw = dict_get (normalize raw) ''display'' PNone"

definition store_of :: "pyval \<Rightarrow> bool" where
  "store_of raw = truthy (dict_get (normalize raw) ''store'' (PBool False))"

text \<open>What one run of a tool over the items \<open>items\<close> yields and what it stores.\<close>

definition shown :: "pyval list \<Rightarrow> pyval list" where
  "shown items = filter truthy (map display_of items)"

definition stored :: "pyval list \<Rightarrow> pyval list" where
  "stored items = map display_of (filter store_of items)"

text \<open>
  A value is empty when it is \<^verbatim>\<open>None\<close>, the empty string, the empty list or the
  empty dict.
\<close>

fun is_empty :: "pyval \<Rightarrow> bool" where
  "is_empty PNone = True"
| "is_empty (PStr s) = (s = [])"
| "is_empty (PList xs) = (xs = [])"
| "is_empty (PDict d) = (d = [])"
| "is_empty _ = False"

datatype role = RSystem | RUser | RAssistantToolCall | RToolResult | RAssistantText

fun role_of :: "message \<Rightarrow> role" where
  "role_of (System c) = RSystem"
| "role_of (User c) = RUser"
| "role_of (AssistantToolCall cs) = RAssistantToolCall"
| "role_of (ToolResult i n c) = RToolResult"
| "role_of (AssistantText c) = RAssistantText"

definition last_n :: "nat \<Rightarrow> 'a list \<Rightarrow> 'a list" where
  "last_n n xs = drop (length xs - n) xs"

text \<open>
  A list of messages made of adjacent pairs: an assistant message with one tool call, then
  the tool message with the same id and name.
\<close>

fun paired :: "message list \<Rightarrow> bool" where
  "paired [] = True"
| "paired (AssistantToolCall [c] # ToolResult i n x # rest) =
     (call_id c = i \<and> call_name c = n \<and> paired rest)"
| "paired _ = False"

text \<open>
  What a piece of code that starts in state \<open>s\<close> and is left as \<open>out\<close> has done to
  \<^verbatim>\<open>history\<close>: it has appended tool-call and tool messages only, and when it is left
  normally these are complete pairs.
\<close>

definition appends :: "state \<Rightarrow> outcome \<Rightarrow> bool" where
  "appends s out =
     (\<exists>ms. history (state_of out) = history s @ ms \<and>
           (\<forall>m \<in> set ms. role_of m = RAssistantToolCall \<or> role_of m = RToolResult) \<and>
           (raised_of out = None \<longrightarrow> paired ms))"

text \<open>
  Two properties of a state: a non-empty accumulator comes with a recorded tool name; and
  when the last message is a tool message, its content is the serialisation of the
  accumulator.
\<close>

definition named_when_stored :: "state \<Rightarrow> bool" where
  "named_when_stored s = (tool_output_chunks s \<noteq> [] \<longrightarrow> nonempty (tool_name s) \<noteq> None)"

definition payload_current :: "env \<Rightarrow> state \<Rightarrow> bool" where
  "payload_current env s =
     (\<forall>i n x. last (history s) = ToolResult i n x \<longrightarrow>
        x = dumps env False (PList (tool_output_chunks s)))"

text \<open>The text delta that a chunk contributes to \<^verbatim>\<open>collected\<close>.\<close>

definition chunk_text :: "chunk \<Rightarrow> string" where
  "chunk_text c =
     (case choices c of
        Some (choice # _) \<Rightarrow> (case nonempty (content choice) of Some d \<Rightarrow> d | None \<Rightarrow> [])
      | _ \<Rightarrow> [])"

section \<open>An example environment\<close>

text \<open>
  A concrete environment on which the functions above can be run. \<open>loads_example\<close> lists
  the values of \<^verbatim>\<open>json.loads\<close> on the complete argument texts of the examples, and
  raises \<^verbatim>\<open>ValueError\<close> on \<open>long_literal\<close>, a complete JSON text with an integer
  of 4301 digits (the interpreter converts at most 4300); every other buffer that the
  examples reach is not a JSON document, and \<^verbatim>\<open>json.loads\<close> raises
  \<^verbatim>\<open>JSONDecodeError\<close> on it. \<open>dumps_example\<close> writes a value as
  \<^verbatim>\<open>json.dumps\<close> does when no string in it needs an escape. \<open>py_add_example\<close>
  and \<open>py_str_example\<close> are Python's \<^verbatim>\<open>+\<close> and \<^verbatim>\<open>str\<close> on two small
  integers and on two strings; the examples add small integers only.
\<close>

definition long_literal :: string where
  \<open>long_literal = ''{"a":'' @ replicate 4301 (CHR ''1'') @ '',"b":2}''\<close>

definition loads_example :: "string \<Rightarrow> exn + pyval" where
  \<open>loads_example s =
     (if s = ''{"a":1,"b":2}'' then Inr (PDict [(''a'', PInt 1), (''b'', PInt 2)])
      else if s = ''{"a":3,"b":4}'' then Inr (PDict [(''a'', PInt 3), (''b'', PInt 4)])
      else if s = long_literal then Inl (Error ''ValueError'')
      else Inl (Error ''JSONDecodeError''))\<close>

fun dumps_example :: "bool \<Rightarrow> pyval \<Rightarrow> string"
  and dumps_elems :: "bool \<Rightarrow> pyval list \<Rightarrow> string"
  and dumps_pairs :: "bool \<Rightarrow> (string \<times> pyval) list \<Rightarrow> string" where
  "dumps_example ea PNone = ''null''"
| "dumps_example ea (PBool b) = (if b then ''true'' else ''false'')"
| "dumps_example ea (PInt n) = str_int n"
| "dumps_example ea (PFloat r) = r"
| "dumps_example ea (PStr s) = CHR 0x22 # s @ [CHR 0x22]"
| "dumps_example ea (PList xs) = ''['' @ dumps_elems ea xs @ '']''"
| "dumps_example ea (PDict d) = ''{'' @ dumps_pairs ea d @ ''}''"
| "dumps_elems ea [] = []"
| "dumps_elems ea [x] = dumps_example ea x"
| "dumps_elems ea (x # y # xs) = dumps_example ea x @ '', '' @ dumps_elems ea (y # xs)"
| "dumps_pairs ea [] = []"
| "dumps_pairs ea [(k, v)] = CHR 0x22 # k @ [CHR 0x22] @ '': '' @ dumps_example ea v"
| "dumps_pairs ea ((k, v) # p # d) =
     CHR 0x22 # k @ [CHR 0x22] @ '': '' @ dumps_example ea v @ '', '' @ dumps_pairs ea (p # d)"

fun py_add_example :: "pyval \<Rightarrow> pyval \<Rightarrow> py_error + pyval" where
  "py_add_example (PInt x) (PInt y) = Inr (PInt (x + y))"
| "py_add_example (PStr x) (PStr y) = Inr (PStr (x @ y))"
| "py_add_example _ _ = Inl TypeError"

fun py_str_example :: "pyval \<Rightarrow> py_error + string" where
  "py_str_example (PInt n) = Inr (str_int n)"
| "py_str_example (PStr s) = Inr s"
| "py_str_example _ = Inr []"

text \<open>
  The provider answers a request that offers tools with the stream \<open>primary\<close> and a request
  without tools with the stream \<open>followup\<close>; the clock starts at 1700000000000 ms and
  advances by one at each reading.
\<close>

definition example_env :: "chunk lazy \<Rightarrow> chunk lazy \<Rightarrow> env" where
  "example_env primary followup =
     \<lparr>create = (\<lambda>rq. if req_tools rq \<noteq> None then Inr primary else Inr followup),
      loads = loads_example,
      dumps = dumps_example,
      time_ms = (\<lambda>k. 1700000000000 + int k),
      py_add = py_add_example,
      py_str = py_str_example\<rparr>"

text \<open>
  The same environment with a provider that may also fail to open a stream: \<open>primary\<close>
  and \<open>followup\<close> are what \<^verbatim>\<open>create\<close> does on a request with tools and on one
  without.
\<close>

definition opening_env :: "exn + chunk lazy \<Rightarrow> exn + chunk lazy \<Rightarrow> env" where
  "opening_env primary followup =
     \<lparr>create = (\<lambda>rq. if req_tools rq \<noteq> None then primary else followup),
      loads = loads_example,
      dumps = dumps_example,
      time_ms = (\<lambda>k. 1700000000000 + int k),
      py_add = py_add_example,
      py_str = py_str_example\<rparr>"

definition text_chunk :: "string \<Rightarrow> chunk" where
  "text_chunk d = \<lparr>choices = Some [\<lparr>content = Some d, tool_calls = None\<rparr>]\<rparr>"

definition call_chunk :: "string option \<Rightarrow> string option \<Rightarrow> string \<Rightarrow> chunk" where
  "call_chunk i n a =
     \<lparr>choices = Some [\<lparr>content = None,
                        tool_calls = Some [\<lparr>tc_id = i, tc_name = n, tc_arguments = Some a\<rparr>]\<rparr>]\<rparr>"

text \<open>
  Example streams. \<open>one_call\<close>: some text, then one tool call whose arguments arrive in
  two fragments, the second without id and name (as the provider sends them).
  \<open>two_calls\<close>: two tool calls, each complete in one fragment. \<open>repeated_call\<close>: the
  same, with the same arguments in both calls. \<open>mixed_calls\<close>: the first fragment of
  one tool call, then a fragment of a tool call with another id. \<open>long_call\<close>: one tool
  call whose argument text is \<open>long_literal\<close>. \<open>closing\<close>: the text of a follow-up
  answer.
\<close>

definition one_call :: "chunk list" where
  \<open>one_call =
     [text_chunk ''Let me add. '',
      call_chunk (Some ''call_A'') (Some ''fun_2'') ''{"a":'',
      call_chunk None None ''1,"b":2}'']\<close>

definition two_calls :: "chunk list" where
  \<open>two_calls =
     [call_chunk (Some ''call_A'') (Some ''fun_2'') ''{"a":1,"b":2}'',
      call_chunk (Some ''call_B'') (Some ''fun_2'') ''{"a":3,"b":4}'']\<close>

definition repeated_call :: "chunk list" where
  \<open>repeated_call =
     [call_chunk (Some ''call_A'') (Some ''fun_2'') ''{"a":1,"b":2}'',
      call_chunk (Some ''call_B'') (Some ''fun_2'') ''{"a":1,"b":2}'']\<close>

definition mixed_calls :: "chunk list" where
  \<open>mixed_calls =
     [call_chunk (Some ''call_A'') (Some ''fun_2'') ''{"a":'',
      call_chunk (Some ''call_B'') (Some ''fun_2'') ''1,"b":2}'']\<close>

definition long_call :: "chunk list" where
  "long_call = [call_chunk (Some ''call_A'') (Some ''fun_2'') long_literal]"

definition closing :: "chunk list" where
  "closing = [text_chunk ''Here is '', text_chunk ''the result.'']"

text \<open>The last item of \<^verbatim>\<open>fun_2\<close> when \<^verbatim>\<open>str(a+b)\<close> is \<open>r\<close>.\<close>

definition result_item :: "string \<Rightarrow> pyval" where
  "result_item r = PDict [(''display'', PStr (''result = '' @ r)), (''store'', PBool True)]"

section \<open>Basic facts\<close>

lemma length_long_literal: "length long_literal = 4313"
  by (simp add: long_literal_def)

lemma long_literal_differs [simp]:
  "length s < 4313 \<Longrightarrow> (s = long_literal) = False"
  "length s < 4313 \<Longrightarrow> (long_literal = s) = False"
  using length_long_literal by auto

lemma loads_example_long: "loads_example long_literal = Inl (Error ''ValueError'')"
  by (simp add: loads_example_def)

lemma map_of_setitem: "map_of (setitem k v d) k' = (if k' = k then Some v else map_of d k')"
  by (induction d) auto

lemma has_key_map_of: "has_key k d = (map_of d k \<noteq> None)"
  by (induction d) (auto simp: has_key_def)

lemma has_key_setitem: "has_key k' (setitem k v d) = (k' = k \<or> has_key k' d)"
  by (simp add: has_key_map_of map_of_setitem)

lemma filter_setitem:
  "\<not> has_key k d \<Longrightarrow> filter (\<lambda>(k', v'). k' \<noteq> k) (setitem k v d) = filter (\<lambda>(k', v'). k' \<noteq> k) d"
  by (induction d) (auto simp: has_key_def)

lemma normalize_display: "\<exists>v. map_of (normalize raw) ''display'' = Some v"
  by (cases raw) (auto simp: normalize_def Let_def map_of_setitem has_key_map_of)

lemma consume_yield_eq:
  "consume_yield raw s =
     Done (s\<lparr>yielded := yielded s @ (if truthy (display_of raw) then [display_of raw] else []),
             tool_output_chunks := tool_output_chunks s @ (if store_of raw then [display_of raw] else [])\<rparr>)"
proof -
  obtain v where v: "map_of (normalize raw) ''display'' = Some v"
    using normalize_display by blast
  then have d: "display_of raw = v"
    by (simp add: display_of_def dict_get_def)
  show ?thesis
    by (simp add: consume_yield_def Let_def v d store_of_def)
qed

lemma consume_yields_eq:
  "consume_yields items s =
     Done (s\<lparr>yielded := yielded s @ shown items,
             tool_output_chunks := tool_output_chunks s @ stored items\<rparr>)"
proof (induction items arbitrary: s)
  case Nil
  show ?case by (simp add: shown_def stored_def)
next
  case (Cons raw rest)
  show ?case
    by (simp add: consume_yield_eq Cons.IH shown_def stored_def)
qed

lemma run_tool_eq:
  "run_tool (items, ending) s =
     (let s' = s\<lparr>yielded := yielded s @ shown items,
                 tool_output_chunks := tool_output_chunks s @ stored items\<rparr>
      in case ending of None \<Rightarrow> Done s' | Some e \<Rightarrow> Raised e s')"
  by (simp add: run_tool_def consume_yields_eq Let_def)

lemma dispatch_done:
  assumes "fun_2 env args = (items, None)"
  shows "dispatch env name tool_id args s =
     Done (s\<lparr>history := history s @
               [AssistantToolCall [\<lparr>call_id = tool_id, call_name = name,
                                    call_arguments = dumps env True args\<rparr>],
                ToolResult tool_id name
                  (dumps env False (PList (tool_output_chunks s @ stored items)))],
             yielded := yielded s @ shown items,
             tool_output_chunks := tool_output_chunks s @ stored items,
             partial_args := []\<rparr>)"
  by (simp add: dispatch_def assms run_tool_eq Let_def)

lemma dispatch_raised:
  assumes "fun_2 env args = (items, Some e)"
  shows "dispatch env name tool_id args s =
     Raised e (s\<lparr>history := history s @
               [AssistantToolCall [\<lparr>call_id = tool_id, call_name = name,
                                    call_arguments = dumps env True args\<rparr>]],
             yielded := yielded s @ shown items,
             tool_output_chunks := tool_output_chunks s @ stored items\<rparr>)"
  by (simp add: dispatch_def assms run_tool_eq Let_def)

lemma id_of_tool_name [simp]:
  "fst (id_of env tc (s\<lparr>tool_name := x\<rparr>)) = fst (id_of env tc s)"
  by (simp add: id_of_def split: option.splits)

lemma id_of_frame [simp]:
  "history (snd (id_of env tc s)) = history s"
  "yielded (snd (id_of env tc s)) = yielded s"
  "tool_output_chunks (snd (id_of env tc s)) = tool_output_chunks s"
  "partial_args (snd (id_of env tc s)) = partial_args s"
  "collected (snd (id_of env tc s)) = collected s"
  "requests (snd (id_of env tc s)) = requests s"
  "tool_name (snd (id_of env tc s)) = tool_name s"
  by (simp_all add: id_of_def split: option.splits)

lemma fun_2_ending:
  "snd (fun_2 env args) = Some e \<Longrightarrow>
   e = Error ''TypeError'' \<or> e = Error ''OverflowError'' \<or> e = Error ''ValueError''"
  by (auto simp: fun_2_def bind_fun_2_def exn_of_def
           split: pyval.splits if_splits option.splits sum.splits prod.splits py_error.splits)

lemma except_decode_dispatch:
  "except_decode (dispatch env name tool_id args s) = dispatch env name tool_id args s"
proof (cases "fun_2 env args")
  case (Pair items ending)
  show ?thesis
  proof (cases ending)
    case None
    with Pair show ?thesis by (simp add: dispatch_done)
  next
    case (Some e)
    with Pair fun_2_ending [of env args e] show ?thesis
      by (auto simp: dispatch_raised)
  qed
qed

lemma except_decode_Raised:
  "except_decode (Raised e s) = (if e = Error ''JSONDecodeError'' then Done s else Raised e s)"
  by (cases e) simp_all

lemma handle_tool_call_cases:
  "handle_tool_call env tc s =
     (let s2 = snd (id_of env tc (s\<lparr>tool_name := Some (name_of tc)\<rparr>))
      in case nonempty (tc_arguments tc) of
           None \<Rightarrow> Done s2
         | Some piece \<Rightarrow>
             (case loads env (partial_args s @ piece) of
                Inl e \<Rightarrow>
                  (if e = Error ''JSONDecodeError''
                   then Done (s2\<lparr>partial_args := partial_args s @ piece\<rparr>)
                   else Raised e (s2\<lparr>partial_args := partial_args s @ piece\<rparr>))
              | Inr args \<Rightarrow>
                  dispatch env (name_of tc) (fst (id_of env tc s)) args
                    (s2\<lparr>partial_args := partial_args s @ piece\<rparr>)))"
  by (simp add: handle_tool_call_def Let_def split_def id_of_frame except_decode_dispatch
           except_decode_Raised split: option.splits sum.splits)

lemma fun_2_example:
  "fun_2 (example_env p f) (PDict [(''a'', PInt 1), (''b'', PInt 2)]) =
     (fun_2_items @ [PDict [(''display'', PStr ''result = 3''), (''store'', PBool True)]], None)"
  by (simp add: fun_2_def bind_fun_2_def example_env_def str_int_def str_nat.simps digit_char_def)

lemma display_of_simps:
  "display_of PNone = PNone"
  "display_of (PStr x) = PStr x"
  "display_of (PInt n) = PInt n"
  "display_of (PDict ((''display'', v) # d)) = v"
  "display_of (PDict []) = PStr []"
  by (simp_all add: display_of_def normalize_def dict_get_def has_key_def Let_def map_of_setitem)

lemma store_of_simps:
  "store_of PNone = False"
  "store_of (PStr x) = False"
  "store_of (PInt n) = False"
  "store_of (PDict []) = False"
  "store_of (PDict [(''display'', v), (''store'', b)]) = truthy b"
  "store_of (PDict [(''display'', v), (''code'', c), (''store'', b)]) = truthy b"
  by (simp_all add: store_of_def normalize_def dict_get_def has_key_def Let_def map_of_setitem)

lemma stored_fun_2_items:
  "stored fun_2_items =
     [PStr ''fun_1fun_1fun_1fun_1'',
      PStr ''fun_2 using proper yield format ** should be stored in history and be showed in terminal **'',
      PDict [(''DICT fun_2'', PStr ''this should be stored in chat history''),
             (''success'', PBool True), (''result'', fun_2_dict)]]"
  by (simp add: stored_def fun_2_items_def fun_1_def display_of_simps store_of_simps)


lemma dispatch_eq:
  "dispatch env name tool_id args s =
     (case snd (fun_2 env args) of
        None \<Rightarrow>
          Done (s\<lparr>history := history s @
                    [AssistantToolCall [\<lparr>call_id = tool_id, call_name = name,
                                         call_arguments = dumps env True args\<rparr>],
                     ToolResult tool_id name
                       (dumps env False
                          (PList (tool_output_chunks s @ stored (fst (fun_2 env args)))))],
                  yielded := yielded s @ shown (fst (fun_2 env args)),
                  tool_output_chunks := tool_output_chunks s @ stored (fst (fun_2 env args)),
                  partial_args := []\<rparr>)
      | Some e \<Rightarrow>
          Raised e (s\<lparr>history := history s @
                    [AssistantToolCall [\<lparr>call_id = tool_id, call_name = name,
                                         call_arguments = dumps env True args\<rparr>]],
                  yielded := yielded s @ shown (fst (fun_2 env args)),
                  tool_output_chunks := tool_output_chunks s @ stored (fst (fun_2 env args))\<rparr>))"
proof (cases "fun_2 env args")
  case (Pair items ending)
  then show ?thesis
    by (cases ending) (simp_all add: dispatch_done dispatch_raised)
qed

lemma nonempty_Some [simp]: "piece \<noteq> [] \<Longrightarrow> nonempty (Some piece) = Some piece"
  by (simp add: nonempty_def)

lemma nonempty_SomeD: "nonempty x = Some v \<Longrightarrow> x = Some v \<and> v \<noteq> []"
  by (auto simp: nonempty_def split: option.splits if_splits)

lemma id_of_ticks [simp]:
  "ticks (snd (id_of env tc (s\<lparr>tool_name := x\<rparr>))) = ticks (snd (id_of env tc s))"
  by (simp add: id_of_def split: option.splits)

lemma handle_tool_calls_append:
  "handle_tool_calls env (xs @ ys) s =
     (case handle_tool_calls env xs s of
        Done s' \<Rightarrow> handle_tool_calls env ys s'
      | Raised e s' \<Rightarrow> Raised e s')"
  by (induction xs arbitrary: s) (auto split: outcome.splits)

lemma name_of_missing: "tc_name tc = None \<or> tc_name tc = Some [] \<Longrightarrow> name_of tc = ''worlds''"
  by (auto simp: name_of_def nonempty_def)

lemma handle_tool_call_tool_name:
  "tool_name (state_of (handle_tool_call env tc s)) = Some (name_of tc)"
  by (simp add: handle_tool_call_cases dispatch_eq Let_def id_of_def
           split: option.splits sum.splits)


lemma stored_append: "stored (xs @ ys) = stored xs @ stored ys"
  by (simp add: stored_def)

lemma example_env_simps [simp]:
  "loads (example_env p f) = loads_example"
  "dumps (example_env p f) = dumps_example"
  "time_ms (example_env p f) = (\<lambda>k. 1700000000000 + int k)"
  "py_add (example_env p f) = py_add_example"
  "py_str (example_env p f) = py_str_example"
  by (simp_all add: example_env_def)



lemma fst_id_of:
  "fst (id_of env tc s) =
     (case nonempty (tc_id tc) of
        Some i \<Rightarrow> i
      | None \<Rightarrow> ''call_'' @ str_int (time_ms env (ticks s)))"
  by (simp add: id_of_def split: option.splits)

lemma handle_tool_call_parsed:
  assumes "nonempty (tc_arguments tc) = Some piece"
      and "loads env (partial_args s @ piece) = Inr args"
  shows "raised_of (handle_tool_call env tc s) = snd (fun_2 env args)"
    and "tool_name (state_of (handle_tool_call env tc s)) = Some (name_of tc)"
    and "yielded (state_of (handle_tool_call env tc s)) = yielded s @ shown (fst (fun_2 env args))"
    and "tool_output_chunks (state_of (handle_tool_call env tc s)) =
           tool_output_chunks s @ stored (fst (fun_2 env args))"
    and "history (state_of (handle_tool_call env tc s)) =
           history s @
           AssistantToolCall [\<lparr>call_id = fst (id_of env tc s), call_name = name_of tc,
                                call_arguments = dumps env True args\<rparr>] #
           (case snd (fun_2 env args) of
              None \<Rightarrow> [ToolResult (fst (id_of env tc s)) (name_of tc)
                          (dumps env False
                             (PList (tool_output_chunks s @ stored (fst (fun_2 env args)))))]
            | Some e \<Rightarrow> [])"
  using assms
  by (simp_all add: handle_tool_call_cases dispatch_eq Let_def split: option.splits)

lemma fun_2_example_ints:
  "fun_2 (example_env p f) (PDict [(''a'', PInt x), (''b'', PInt y)]) =
     (fun_2_items @ [result_item (str_int (x + y))], None)"
  by (simp add: fun_2_def bind_fun_2_def result_item_def)

lemma shown_result_item: "shown [result_item r] = [PStr (''result = '' @ r)]"
  by (simp add: shown_def result_item_def display_of_simps)

lemma stored_result_item: "stored [result_item r] = [PStr (''result = '' @ r)]"
  by (simp add: stored_def result_item_def display_of_simps store_of_simps)

lemma handle_tool_call_done:
  assumes "nonempty (tc_arguments tc) = Some piece"
      and "loads env (partial_args s @ piece) = Inr args"
      and "fun_2 env args = (items, None)"
  shows "handle_tool_call env tc s =
     Done ((snd (id_of env tc s))
            \<lparr>tool_name := Some (name_of tc),
             history := history s @
               [AssistantToolCall [\<lparr>call_id = fst (id_of env tc s), call_name = name_of tc,
                                    call_arguments = dumps env True args\<rparr>],
                ToolResult (fst (id_of env tc s)) (name_of tc)
                  (dumps env False (PList (tool_output_chunks s @ stored items)))],
             yielded := yielded s @ shown items,
             tool_output_chunks := tool_output_chunks s @ stored items,
             partial_args := []\<rparr>)"
  using assms
  by (simp add: handle_tool_call_cases dispatch_done id_of_def split: option.splits)

lemma handle_tool_call_buffering:
  assumes "nonempty (tc_arguments tc) = Some piece"
      and "loads env (partial_args s @ piece) = Inl (Error ''JSONDecodeError'')"
  shows "handle_tool_call env tc s =
     Done ((snd (id_of env tc s))
            \<lparr>tool_name := Some (name_of tc), partial_args := partial_args s @ piece\<rparr>)"
  using assms
  by (simp add: handle_tool_call_cases id_of_def split: option.splits)

lemma handle_chunk_call:
  "handle_chunk env (call_chunk i n a) s =
     handle_tool_call env \<lparr>tc_id = i, tc_name = n, tc_arguments = Some a\<rparr> s"
  by (simp add: handle_chunk_def call_chunk_def take_text_def nonempty_def split: outcome.splits)

lemma handle_chunk_text:
  "d \<noteq> [] \<Longrightarrow> handle_chunk env (text_chunk d) s =
     Done (s\<lparr>yielded := yielded s @ [PStr d], collected := collected s @ d\<rparr>)"
  by (simp add: handle_chunk_def text_chunk_def take_text_def)

lemma handle_followup_text:
  "d \<noteq> [] \<Longrightarrow> handle_followup_chunk (text_chunk d) s =
     s\<lparr>yielded := yielded s @ [PStr d], collected := collected s @ d\<rparr>"
  by (simp add: handle_followup_chunk_def text_chunk_def take_text_def)

lemma create_example:
  "create (example_env p f) (primary_request h) = Inr p"
  "create (example_env p f) (followup_request h) = Inr f"
  by (simp_all add: example_env_def primary_request_def followup_request_def)

lemma str_int_examples:
  "str_int 3 = ''3''" "str_int 7 = ''7''" "str_int 1700000000000 = ''1700000000000''"
  by (simp_all add: str_int_def str_nat.simps digit_char_def)

lemmas run_simps =
  ask_question_def create_example try_body_def phase1_def phase2_def followup_wanted_def
  handle_chunk_call handle_chunk_text handle_followup_text handle_tool_call_cases dispatch_eq
  fun_2_example_ints loads_example_def id_of_def name_of_def nonempty_def start_state_def
  finalize_def str_int_examples

lemma two_calls_run:
  "ask_question (example_env (two_calls, None) (closing, None)) ''add twice'' [] =
     Done \<lparr>history =
             [User ''add twice'',
              AssistantToolCall
                [\<lparr>call_id = ''call_A'', call_name = ''fun_2'',
                  call_arguments = dumps_example True (PDict [(''a'', PInt 1), (''b'', PInt 2)])\<rparr>],
              ToolResult ''call_A'' ''fun_2''
                (dumps_example False (PList (stored (fun_2_items @ [result_item ''3''])))),
              AssistantToolCall
                [\<lparr>call_id = ''call_B'', call_name = ''fun_2'',
                  call_arguments = dumps_example True (PDict [(''a'', PInt 3), (''b'', PInt 4)])\<rparr>],
              ToolResult ''call_B'' ''fun_2''
                (dumps_example False
                   (PList (stored (fun_2_items @ [result_item ''3'']) @
                           stored (fun_2_items @ [result_item ''7''])))),
              AssistantText ''Here is the result.''],
           collected = ''Here is the result.'',
           partial_args = [],
           tool_name = Some ''fun_2'',
           tool_output_chunks =
             stored (fun_2_items @ [result_item ''3'']) @ stored (fun_2_items @ [result_item ''7'']),
           yielded =
             shown (fun_2_items @ [result_item ''3'']) @ shown (fun_2_items @ [result_item ''7'']) @
             [PStr ''Here is '', PStr ''the result.''],
           requests =
             [primary_request [User ''add twice''],
              followup_request
                [User ''add twice'',
                 AssistantToolCall
                   [\<lparr>call_id = ''call_A'', call_name = ''fun_2'',
                     call_arguments = dumps_example True (PDict [(''a'', PInt 1), (''b'', PInt 2)])\<rparr>],
                 ToolResult ''call_A'' ''fun_2''
                   (dumps_example False (PList (stored (fun_2_items @ [result_item ''3''])))),
                 AssistantToolCall
                   [\<lparr>call_id = ''call_B'', call_name = ''fun_2'',
                     call_arguments = dumps_example True (PDict [(''a'', PInt 3), (''b'', PInt 4)])\<rparr>],
                 ToolResult ''call_B'' ''fun_2''
                   (dumps_example False
                      (PList (stored (fun_2_items @ [result_item ''3'']) @
                              stored (fun_2_items @ [result_item ''7'']))))]],
           ticks = 0\<rparr>"
  by (simp add: run_simps two_calls_def closing_def stored_append stored_result_item
       del: dumps_example.simps)

lemma paired_append: "paired xs \<Longrightarrow> paired ys \<Longrightarrow> paired (xs @ ys)"
  by (induction xs rule: paired.induct) auto

lemma paired_roles:
  "paired ms \<Longrightarrow> m \<in> set ms \<Longrightarrow> role_of m = RAssistantToolCall \<or> role_of m = RToolResult"
  by (induction ms rule: paired.induct) auto

lemma paired_no_call:
  "paired ms \<Longrightarrow> filter (\<lambda>m. role_of m = RAssistantToolCall) ms = [] \<Longrightarrow> ms = []"
  by (induction ms rule: paired.induct) auto

lemma paired_one_call:
  assumes "paired ms" and "length (filter (\<lambda>m. role_of m = RAssistantToolCall) ms) = 1"
  shows "\<exists>c i n x. ms = [AssistantToolCall [c], ToolResult i n x] \<and> call_id c = i \<and> call_name c = n"
  using assms
proof (induction ms rule: paired.induct)
  case (2 c i n x rest)
  then have "paired rest" and "filter (\<lambda>m. role_of m = RAssistantToolCall) rest = []"
    by simp_all
  then have "rest = []"
    by (rule paired_no_call)
  with 2 show ?case by simp
qed simp_all

lemma appends_refl: "appends s (Done s)"
  by (simp add: appends_def)

lemma appends_trans:
  assumes "appends s (Done s1)" and "appends s1 out"
  shows "appends s out"
proof -
  from assms(1) obtain ms where ms: "history s1 = history s @ ms" "paired ms"
      "\<forall>m \<in> set ms. role_of m = RAssistantToolCall \<or> role_of m = RToolResult"
    by (auto simp: appends_def)
  from assms(2) obtain ms' where ms': "history (state_of out) = history s1 @ ms'"
      "\<forall>m \<in> set ms'. role_of m = RAssistantToolCall \<or> role_of m = RToolResult"
      "raised_of out = None \<longrightarrow> paired ms'"
    by (auto simp: appends_def)
  have "history (state_of out) = history s @ (ms @ ms')"
    by (simp add: ms ms')
  moreover have "\<forall>m \<in> set (ms @ ms'). role_of m = RAssistantToolCall \<or> role_of m = RToolResult"
    using ms(3) ms'(2) by auto
  moreover have "raised_of out = None \<longrightarrow> paired (ms @ ms')"
    using ms(2) ms'(3) by (simp add: paired_append)
  ultimately show ?thesis
    unfolding appends_def by (auto intro!: exI [of _ "ms @ ms'"])
qed

lemma appends_same_history:
  "history (state_of out) = history s \<Longrightarrow> appends s out"
  by (simp add: appends_def)

text \<open>Loops that stop at the first exception.\<close>

lemma loop_appends:
  fixes step :: "'a \<Rightarrow> state \<Rightarrow> outcome" and loop :: "'a list \<Rightarrow> state \<Rightarrow> outcome"
  assumes nil: "\<And>s. loop [] s = Done s"
      and cons: "\<And>x xs s. loop (x # xs) s =
                  (case step x s of Done s' \<Rightarrow> loop xs s' | Raised e s' \<Rightarrow> Raised e s')"
      and step: "\<And>x s. appends s (step x s)"
  shows "appends s (loop xs s)"
proof (induction xs arbitrary: s)
  case Nil
  show ?case by (simp add: nil appends_refl)
next
  case (Cons x xs)
  show ?case
  proof (cases "step x s")
    case (Done s')
    with step [of s x] have "appends s (Done s')" by simp
    then show ?thesis
      using Cons.IH [of s'] Done by (simp add: cons appends_trans)
  next
    case (Raised e s')
    with step [of s x] show ?thesis by (simp add: cons)
  qed
qed

lemma loop_frame:
  fixes step :: "'a \<Rightarrow> state \<Rightarrow> outcome" and loop :: "'a list \<Rightarrow> state \<Rightarrow> outcome"
  assumes nil: "\<And>s. loop [] s = Done s"
      and cons: "\<And>x xs s. loop (x # xs) s =
                  (case step x s of Done s' \<Rightarrow> loop xs s' | Raised e s' \<Rightarrow> Raised e s')"
      and step: "\<And>x s. f (state_of (step x s)) = f s"
  shows "f (state_of (loop xs s)) = f s"
proof (induction xs arbitrary: s)
  case Nil
  show ?case by (simp add: nil)
next
  case (Cons x xs)
  show ?case
  proof (cases "step x s")
    case (Done s')
    with step [of x s] Cons.IH [of s'] show ?thesis by (simp add: cons)
  next
    case (Raised e s')
    with step [of x s] show ?thesis by (simp add: cons)
  qed
qed

lemma handle_tool_call_appends: "appends s (handle_tool_call env tc s)"
  by (simp add: appends_def handle_tool_call_cases dispatch_eq Let_def split: option.splits sum.splits)

lemma handle_tool_calls_appends: "appends s (handle_tool_calls env tcs s)"
  by (rule loop_appends [where step = "handle_tool_call env"])
     (simp_all add: handle_tool_call_appends)

lemma handle_tool_call_frame:
  "collected (state_of (handle_tool_call env tc s)) = collected s"
  "requests (state_of (handle_tool_call env tc s)) = requests s"
  by (simp_all add: handle_tool_call_cases dispatch_eq Let_def split: option.splits sum.splits)

lemma handle_tool_calls_frame:
  "collected (state_of (handle_tool_calls env tcs s)) = collected s"
  "requests (state_of (handle_tool_calls env tcs s)) = requests s"
  by (rule loop_frame [where step = "handle_tool_call env"];
      simp add: handle_tool_call_frame)+

lemma take_text_frame [simp]:
  "history (take_text d s) = history s"
  "requests (take_text d s) = requests s"
  "tool_output_chunks (take_text d s) = tool_output_chunks s"
  "tool_name (take_text d s) = tool_name s"
  "partial_args (take_text d s) = partial_args s"
  by (simp_all add: take_text_def split: option.splits)

lemma handle_chunk_appends: "appends s (handle_chunk env c s)"
proof -
  have conv: "appends (take_text d s) out \<Longrightarrow> appends s out" for d out
    by (simp add: appends_def)
  have a: "appends s (handle_tool_calls env tcs (take_text d s))" for d tcs
    by (rule conv) (rule handle_tool_calls_appends)
  have b: "appends s (Done (take_text d s))" for d
    by (rule conv) (rule appends_refl)
  show ?thesis
    by (simp add: handle_chunk_def Let_def a b appends_refl split: option.splits list.splits)
qed

lemma handle_chunk_collected:
  "collected (state_of (handle_chunk env c s)) = collected s @ chunk_text c"
  by (auto simp: handle_chunk_def chunk_text_def Let_def handle_tool_calls_frame take_text_def
           split: option.splits list.splits)

lemma handle_chunk_requests:
  "requests (state_of (handle_chunk env c s)) = requests s"
  by (auto simp: handle_chunk_def Let_def handle_tool_calls_frame
           split: option.splits list.splits)

lemma primary_loop_appends: "appends s (primary_loop env cs s)"
  by (rule loop_appends [where step = "handle_chunk env"])
     (simp_all add: handle_chunk_appends)

lemma primary_loop_requests: "requests (state_of (primary_loop env cs s)) = requests s"
  by (rule loop_frame [where step = "handle_chunk env"])
     (simp_all add: handle_chunk_requests)

lemma primary_loop_collected:
  "primary_loop env cs s = Done s' \<Longrightarrow> collected s' = collected s @ concat (map chunk_text cs)"
proof (induction cs arbitrary: s)
  case Nil
  then show ?case by simp
next
  case (Cons c cs)
  then show ?case
    using handle_chunk_collected [of env c s]
    by (auto split: outcome.splits)
qed

lemma phase1_appends: "appends s (phase1 env stream s)"
proof -
  have "appends s (primary_loop env (fst stream) s)"
    by (rule primary_loop_appends)
  then show ?thesis
    by (auto simp: phase1_def appends_def dest: paired_roles split: outcome.splits option.splits)
qed

lemma phase1_requests: "requests (state_of (phase1 env stream s)) = requests s"
  using primary_loop_requests [of env "fst stream" s]
  by (auto simp: phase1_def split: outcome.splits option.splits)

lemma foldl_followup:
  "foldl (\<lambda>st c. handle_followup_chunk c st) s cs =
     s\<lparr>yielded := yielded s @ map PStr (filter (\<lambda>d. d \<noteq> []) (map chunk_text cs)),
       collected := collected s @ concat (map chunk_text cs)\<rparr>"
proof (induction cs arbitrary: s)
  case Nil
  show ?case by simp
next
  case (Cons c cs)
  have "handle_followup_chunk c s =
          s\<lparr>yielded := yielded s @ map PStr (filter (\<lambda>d. d \<noteq> []) [chunk_text c]),
            collected := collected s @ chunk_text c\<rparr>"
    by (auto simp: handle_followup_chunk_def chunk_text_def take_text_def nonempty_def
             split: option.splits list.splits)
  then show ?case
    by (simp add: Cons.IH)
qed

lemma phase2_history: "history (state_of (phase2 env s)) = history s"
  by (simp add: phase2_def Let_def foldl_followup split: sum.splits option.splits prod.splits)

lemma phase2_appends: "appends s (phase2 env s)"
  by (rule appends_same_history) (rule phase2_history)

lemma try_body_appends: "appends s (try_body env stream s)"
proof (cases "phase1 env stream s")
  case (Done s1)
  with phase1_appends [of s env stream] have "appends s (Done s1)" by simp
  then show ?thesis
    using phase2_appends [of s1 env] Done by (simp add: try_body_def appends_trans)
next
  case (Raised e s1)
  with phase1_appends [of s env stream] show ?thesis by (simp add: try_body_def)
qed

lemma one_call_run:
  "ask_question (example_env (one_call, None) (closing, None)) ''add 1 and 2'' [] =
     Done \<lparr>history =
             [User ''add 1 and 2'',
              AssistantToolCall
                [\<lparr>call_id = ''call_1700000000000'', call_name = ''worlds'',
                  call_arguments = dumps_example True (PDict [(''a'', PInt 1), (''b'', PInt 2)])\<rparr>],
              ToolResult ''call_1700000000000'' ''worlds''
                (dumps_example False (PList (stored (fun_2_items @ [result_item ''3''])))),
              AssistantText ''Let me add. Here is the result.''],
           collected = ''Let me add. Here is the result.'',
           partial_args = [],
           tool_name = Some ''worlds'',
           tool_output_chunks = stored (fun_2_items @ [result_item ''3'']),
           yielded =
             PStr ''Let me add. '' # shown (fun_2_items @ [result_item ''3'']) @
             [PStr ''Here is '', PStr ''the result.''],
           requests =
             [primary_request [User ''add 1 and 2''],
              followup_request
                [User ''add 1 and 2'',
                 AssistantToolCall
                   [\<lparr>call_id = ''call_1700000000000'', call_name = ''worlds'',
                     call_arguments = dumps_example True (PDict [(''a'', PInt 1), (''b'', PInt 2)])\<rparr>],
                 ToolResult ''call_1700000000000'' ''worlds''
                   (dumps_example False (PList (stored (fun_2_items @ [result_item ''3'']))))]],
           ticks = 1\<rparr>"
  by (simp add: run_simps one_call_def closing_def stored_append stored_result_item
       del: dumps_example.simps)

lemma one_call_body:
  "try_body (example_env (one_call, None) (closing, None)) (one_call, None)
       (start_state ''add 1 and 2'' []) =
     Done \<lparr>history =
             [User ''add 1 and 2'',
              AssistantToolCall
                [\<lparr>call_id = ''call_1700000000000'', call_name = ''worlds'',
                  call_arguments = dumps_example True (PDict [(''a'', PInt 1), (''b'', PInt 2)])\<rparr>],
              ToolResult ''call_1700000000000'' ''worlds''
                (dumps_example False (PList (stored (fun_2_items @ [result_item ''3'']))))],
           collected = ''Let me add. Here is the result.'',
           partial_args = [],
           tool_name = Some ''worlds'',
           tool_output_chunks = stored (fun_2_items @ [result_item ''3'']),
           yielded =
             PStr ''Let me add. '' # shown (fun_2_items @ [result_item ''3'']) @
             [PStr ''Here is '', PStr ''the result.''],
           requests =
             [primary_request [User ''add 1 and 2''],
              followup_request
                [User ''add 1 and 2'',
                 AssistantToolCall
                   [\<lparr>call_id = ''call_1700000000000'', call_name = ''worlds'',
                     call_arguments = dumps_example True (PDict [(''a'', PInt 1), (''b'', PInt 2)])\<rparr>],
                 ToolResult ''call_1700000000000'' ''worlds''
                   (dumps_example False (PList (stored (fun_2_items @ [result_item ''3'']))))]],
           ticks = 1\<rparr>"
  by (simp add: run_simps one_call_def closing_def stored_append stored_result_item
       del: dumps_example.simps)

lemma ask_question_opened:
  "create env (primary_request (h @ [User q])) = Inr stream \<Longrightarrow>
   ask_question env q h = handle_exit (try_body env stream (start_state q h))"
  by (simp add: ask_question_def start_state_def)

lemma start_state_simps [simp]:
  "history (start_state q h) = h @ [User q]"
  "collected (start_state q h) = []"
  "partial_args (start_state q h) = []"
  "tool_name (start_state q h) = None"
  "tool_output_chunks (start_state q h) = []"
  "yielded (start_state q h) = []"
  "requests (start_state q h) = [primary_request (h @ [User q])]"
  "ticks (start_state q h) = 0"
  by (simp_all add: start_state_def)

lemma loop_rel:
  fixes step :: "'a \<Rightarrow> state \<Rightarrow> outcome" and loop :: "'a list \<Rightarrow> state \<Rightarrow> outcome"
  assumes nil: "\<And>s. loop [] s = Done s"
      and cons: "\<And>x xs s. loop (x # xs) s =
                  (case step x s of Done s' \<Rightarrow> loop xs s' | Raised e s' \<Rightarrow> Raised e s')"
      and step: "\<And>x s. R s (state_of (step x s))"
      and refl: "\<And>s. R s s"
      and trans: "\<And>s t u. R s t \<Longrightarrow> R t u \<Longrightarrow> R s u"
  shows "R s (state_of (loop xs s))"
proof (induction xs arbitrary: s)
  case Nil
  show ?case by (simp add: nil refl)
next
  case (Cons x xs)
  show ?case
  proof (cases "step x s")
    case (Done s')
    with step [of s x] have "R s s'" by simp
    then show ?thesis
      using Cons.IH [of s'] Done by (auto simp: cons intro: trans)
  next
    case (Raised e s')
    with step [of s x] show ?thesis by (simp add: cons)
  qed
qed

lemma handle_tool_call_accumulates:
  "\<exists>xs. tool_output_chunks (state_of (handle_tool_call env tc s)) = tool_output_chunks s @ xs"
  by (simp add: handle_tool_call_cases dispatch_eq Let_def split: option.splits sum.splits)

lemma handle_tool_calls_accumulates:
  "\<exists>xs. tool_output_chunks (state_of (handle_tool_calls env tcs s)) = tool_output_chunks s @ xs"
  by (rule loop_rel [where step = "handle_tool_call env"
        and R = "\<lambda>s t. \<exists>xs. tool_output_chunks t = tool_output_chunks s @ xs"])
     (auto simp: handle_tool_call_accumulates)

lemma handle_chunk_accumulates:
  "\<exists>xs. tool_output_chunks (state_of (handle_chunk env c s)) = tool_output_chunks s @ xs"
  using handle_tool_calls_accumulates [of env _ "take_text d s" for d]
  by (auto simp: handle_chunk_def Let_def split: option.splits list.splits)

lemma primary_loop_accumulates:
  "\<exists>xs. tool_output_chunks (state_of (primary_loop env cs s)) = tool_output_chunks s @ xs"
  by (rule loop_rel [where step = "handle_chunk env"
        and R = "\<lambda>s t. \<exists>xs. tool_output_chunks t = tool_output_chunks s @ xs"])
     (auto simp: handle_chunk_accumulates)

lemma two_calls_second_payload:
  "dumps_example False
     (PList
        [PStr ''fun_1fun_1fun_1fun_1'',
         PStr ''fun_2 using proper yield format ** should be stored in history and be showed in terminal **'',
         PDict [(''DICT fun_2'', PStr ''this should be stored in chat history''),
                (''success'', PBool True), (''result'', fun_2_dict)],
         PStr ''result = 3'',
         PStr ''fun_1fun_1fun_1fun_1'',
         PStr ''fun_2 using proper yield format ** should be stored in history and be showed in terminal **'',
         PDict [(''DICT fun_2'', PStr ''this should be stored in chat history''),
                (''success'', PBool True), (''result'', fun_2_dict)],
         PStr ''result = 7'']) \<noteq>
   dumps_example False
     (PList
        [PStr ''fun_1fun_1fun_1fun_1'',
         PStr ''fun_2 using proper yield format ** should be stored in history and be showed in terminal **'',
         PDict [(''DICT fun_2'', PStr ''this should be stored in chat history''),
                (''success'', PBool True), (''result'', fun_2_dict)],
         PStr ''result = 7''])"
  by simp

lemma appends_no_text:
  assumes "appends s out"
  shows "\<exists>ms. history (state_of out) = history s @ ms \<and> (\<forall>m \<in> set ms. role_of m \<noteq> RAssistantText)"
proof -
  from assms obtain ms where ms: "history (state_of out) = history s @ ms"
      "\<forall>m \<in> set ms. role_of m = RAssistantToolCall \<or> role_of m = RToolResult"
    unfolding appends_def by blast
  from ms(2) have "\<forall>m \<in> set ms. role_of m \<noteq> RAssistantText"
    by fastforce
  with ms(1) show ?thesis
    by blast
qed

lemma handle_exit_history:
  "history (state_of (handle_exit out)) = history (state_of out) @ [AssistantText (collected (state_of out))]"
  by (cases out rule: handle_exit.cases) (simp_all add: finalize_def)

lemma handle_exit_interrupted:
  "raised_of out = Some KeyboardInterrupt \<Longrightarrow>
   raised_of (handle_exit out) = None \<and>
   yielded (state_of (handle_exit out)) = yielded (state_of out) @ [PStr interrupted_marker]"
  by (cases out rule: handle_exit.cases) (simp_all add: finalize_def)

lemma handle_exit_other:
  "raised_of out \<noteq> Some KeyboardInterrupt \<Longrightarrow>
   raised_of (handle_exit out) = raised_of out \<and>
   yielded (state_of (handle_exit out)) = yielded (state_of out)"
  by (cases out rule: handle_exit.cases) (simp_all add: finalize_def)

lemma phase2_interrupted:
  assumes "followup_wanted s1"
      and "create env (followup_request (history s1)) = Inr (fcs, ending)"
  shows "phase2 env s1 =
     (let s2 = s1\<lparr>requests := requests s1 @ [followup_request (history s1)],
                  yielded := yielded s1 @ map PStr (filter (\<lambda>d. d \<noteq> []) (map chunk_text fcs)),
                  collected := collected s1 @ concat (map chunk_text fcs)\<rparr>
      in case ending of None \<Rightarrow> Done s2 | Some e \<Rightarrow> Raised e s2)"
  using assms by (simp add: phase2_def Let_def foldl_followup)

lemma one_call_loop:
  "primary_loop (example_env p f) one_call (start_state ''add 1 and 2'' []) =
     Done \<lparr>history =
             [User ''add 1 and 2'',
              AssistantToolCall
                [\<lparr>call_id = ''call_1700000000000'', call_name = ''worlds'',
                  call_arguments = dumps_example True (PDict [(''a'', PInt 1), (''b'', PInt 2)])\<rparr>],
              ToolResult ''call_1700000000000'' ''worlds''
                (dumps_example False (PList (stored (fun_2_items @ [result_item ''3'']))))],
           collected = ''Let me add. '',
           partial_args = [],
           tool_name = Some ''worlds'',
           tool_output_chunks = stored (fun_2_items @ [result_item ''3'']),
           yielded = PStr ''Let me add. '' # shown (fun_2_items @ [result_item ''3'']),
           requests = [primary_request [User ''add 1 and 2'']],
           ticks = 1\<rparr>"
  by (simp add: run_simps one_call_def stored_append stored_result_item
       del: dumps_example.simps)

lemma chunk_text_simps [simp]:
  "chunk_text (text_chunk d) = d"
  "chunk_text (call_chunk i n a) = []"
  by (simp_all add: chunk_text_def text_chunk_def call_chunk_def nonempty_def)

lemma loop_inv:
  fixes step :: "'a \<Rightarrow> state \<Rightarrow> outcome" and loop :: "'a list \<Rightarrow> state \<Rightarrow> outcome"
  assumes nil: "\<And>s. loop [] s = Done s"
      and cons: "\<And>x xs s. loop (x # xs) s =
                  (case step x s of Done s' \<Rightarrow> loop xs s' | Raised e s' \<Rightarrow> Raised e s')"
      and step: "\<And>x s. P s \<Longrightarrow> P (state_of (step x s))"
      and init: "P s"
  shows "P (state_of (loop xs s))"
  using init
proof (induction xs arbitrary: s)
  case Nil
  then show ?case by (simp add: nil)
next
  case (Cons x xs)
  show ?case
  proof (cases "step x s")
    case (Done s')
    with step [OF Cons.prems, of x] have "P s'" by simp
    then show ?thesis
      using Cons.IH [of s'] Done by (simp add: cons)
  next
    case (Raised e s')
    with step [OF Cons.prems, of x] show ?thesis by (simp add: cons)
  qed
qed

lemma name_of_nonempty: "nonempty (Some (name_of tc)) \<noteq> None"
  by (auto simp: name_of_def nonempty_def split: option.splits if_splits)

lemma handle_tool_call_named: "named_when_stored (state_of (handle_tool_call env tc s))"
  by (simp add: named_when_stored_def handle_tool_call_tool_name name_of_nonempty)

lemma handle_tool_calls_named:
  "named_when_stored s \<Longrightarrow> named_when_stored (state_of (handle_tool_calls env tcs s))"
  by (rule loop_inv [where step = "handle_tool_call env"])
     (simp_all add: handle_tool_call_named)

lemma take_text_named [simp]: "named_when_stored (take_text d s) = named_when_stored s"
  by (simp add: named_when_stored_def)

lemma handle_chunk_named:
  "named_when_stored s \<Longrightarrow> named_when_stored (state_of (handle_chunk env c s))"
  by (simp add: handle_chunk_def Let_def handle_tool_calls_named split: option.splits list.splits)

lemma primary_loop_named:
  "named_when_stored s \<Longrightarrow> named_when_stored (state_of (primary_loop env cs s))"
  by (rule loop_inv [where step = "handle_chunk env"])
     (simp_all add: handle_chunk_named)

lemma handle_tool_call_payload:
  "payload_current env s \<Longrightarrow> payload_current env (state_of (handle_tool_call env tc s))"
  by (simp add: payload_current_def handle_tool_call_cases dispatch_eq Let_def
           split: option.splits sum.splits)

lemma handle_tool_calls_payload:
  "payload_current env s \<Longrightarrow> payload_current env (state_of (handle_tool_calls env tcs s))"
  by (rule loop_inv [where step = "handle_tool_call env"])
     (simp_all add: handle_tool_call_payload)

lemma take_text_payload [simp]: "payload_current env (take_text d s) = payload_current env s"
  by (simp add: payload_current_def)

lemma handle_chunk_payload:
  "payload_current env s \<Longrightarrow> payload_current env (state_of (handle_chunk env c s))"
  by (simp add: handle_chunk_def Let_def handle_tool_calls_payload split: option.splits list.splits)

lemma primary_loop_payload:
  "payload_current env s \<Longrightarrow> payload_current env (state_of (primary_loop env cs s))"
  by (rule loop_inv [where step = "handle_chunk env"])
     (simp_all add: handle_chunk_payload)

lemma start_state_invariants:
  "named_when_stored (start_state q h)" "payload_current env (start_state q h)"
  by (simp_all add: named_when_stored_def payload_current_def)

lemma phase1_Done:
  "phase1 env stream s = Done s1 \<Longrightarrow> primary_loop env (fst stream) s = Done s1 \<and> snd stream = None"
  by (auto simp: phase1_def split: outcome.splits option.splits)

lemma handle_chunk_without_calls:
  assumes "\<forall>choice rest. choices c = Some (choice # rest) \<longrightarrow>
             tool_calls choice = None \<or> tool_calls choice = Some []"
  shows "handle_chunk env c s = Done (handle_followup_chunk c s)"
  using assms
  by (auto simp: handle_chunk_def handle_followup_chunk_def Let_def
           split: option.splits list.splits)

lemma phase2_requests:
  "requests (state_of (phase2 env s)) =
     (if followup_wanted s then requests s @ [followup_request (history s)] else requests s)"
  by (simp add: phase2_def Let_def foldl_followup split: sum.splits option.splits prod.splits)

lemma handle_exit_requests: "requests (state_of (handle_exit out)) = requests (state_of out)"
  by (cases out rule: handle_exit.cases) (simp_all add: finalize_def)

lemma fun_2_items_of:
  "raw \<in> set (fst (fun_2 env args)) \<Longrightarrow> raw \<in> set fun_2_items \<or> (\<exists>t. raw = result_item t)"
  by (auto simp: fun_2_def result_item_def split: sum.splits prod.splits)

lemma fun_2_item_tests:
  assumes "raw \<in> set (fst (fun_2 env args))"
  shows "truthy (display_of raw) = (\<not> is_empty (display_of raw))"
    and "store_of raw = (map_of (normalize raw) ''store'' = Some (PBool True))"
proof -
  from fun_2_items_of [OF assms] have
    "truthy (display_of raw) = (\<not> is_empty (display_of raw)) \<and>
     store_of raw = (map_of (normalize raw) ''store'' = Some (PBool True))"
  proof
    assume "raw \<in> set fun_2_items"
    then show ?thesis
      by (auto simp: fun_2_items_def fun_1_def display_of_def store_of_def normalize_def
            dict_get_def has_key_def Let_def map_of_setitem)
  next
    assume "\<exists>t. raw = result_item t"
    then show ?thesis
      by (auto simp: result_item_def display_of_def store_of_def normalize_def
            dict_get_def has_key_def Let_def map_of_setitem)
  qed
  then show "truthy (display_of raw) = (\<not> is_empty (display_of raw))"
    and "store_of raw = (map_of (normalize raw) ''store'' = Some (PBool True))"
    by simp_all
qed

lemma shown_fun_2:
  "shown (fst (fun_2 env args)) =
     filter (\<lambda>v. \<not> is_empty v) (map display_of (fst (fun_2 env args)))"
  unfolding shown_def
  by (rule filter_cong) (auto simp: fun_2_item_tests(1))

lemma stored_fun_2:
  "stored (fst (fun_2 env args)) =
     map display_of (filter (\<lambda>raw. map_of (normalize raw) ''store'' = Some (PBool True))
                       (fst (fun_2 env args)))"
  unfolding stored_def
  by (rule arg_cong [where f = "map display_of"], rule filter_cong)
     (auto simp: fun_2_item_tests(2))

lemma repeated_call_run:
  "ask_question (example_env (repeated_call, None) (closing, None)) ''add again'' [] =
     Done \<lparr>history =
             [User ''add again'',
              AssistantToolCall
                [\<lparr>call_id = ''call_A'', call_name = ''fun_2'',
                  call_arguments = dumps_example True (PDict [(''a'', PInt 1), (''b'', PInt 2)])\<rparr>],
              ToolResult ''call_A'' ''fun_2''
                (dumps_example False (PList (stored (fun_2_items @ [result_item ''3''])))),
              AssistantToolCall
                [\<lparr>call_id = ''call_B'', call_name = ''fun_2'',
                  call_arguments = dumps_example True (PDict [(''a'', PInt 1), (''b'', PInt 2)])\<rparr>],
              ToolResult ''call_B'' ''fun_2''
                (dumps_example False
                   (PList (stored (fun_2_items @ [result_item ''3'']) @
                           stored (fun_2_items @ [result_item ''3''])))),
              AssistantText ''Here is the result.''],
           collected = ''Here is the result.'',
           partial_args = [],
           tool_name = Some ''fun_2'',
           tool_output_chunks =
             stored (fun_2_items @ [result_item ''3'']) @ stored (fun_2_items @ [result_item ''3'']),
           yielded =
             shown (fun_2_items @ [result_item ''3'']) @ shown (fun_2_items @ [result_item ''3'']) @
             [PStr ''Here is '', PStr ''the result.''],
           requests =
             [primary_request [User ''add again''],
              followup_request
                [User ''add again'',
                 AssistantToolCall
                   [\<lparr>call_id = ''call_A'', call_name = ''fun_2'',
                     call_arguments = dumps_example True (PDict [(''a'', PInt 1), (''b'', PInt 2)])\<rparr>],
                 ToolResult ''call_A'' ''fun_2''
                   (dumps_example False (PList (stored (fun_2_items @ [result_item ''3''])))),
                 AssistantToolCall
                   [\<lparr>call_id = ''call_B'', call_name = ''fun_2'',
                     call_arguments = dumps_example True (PDict [(''a'', PInt 1), (''b'', PInt 2)])\<rparr>],
                 ToolResult ''call_B'' ''fun_2''
                   (dumps_example False
                      (PList (stored (fun_2_items @ [result_item ''3'']) @
                              stored (fun_2_items @ [result_item ''3'']))))]],
           ticks = 0\<rparr>"
  by (simp add: run_simps repeated_call_def closing_def stored_append stored_result_item
       del: dumps_example.simps)

lemma repeated_call_payloads:
  "dumps_example False
     (PList
        [PStr ''fun_1fun_1fun_1fun_1'',
         PStr ''fun_2 using proper yield format ** should be stored in history and be showed in terminal **'',
         PDict [(''DICT fun_2'', PStr ''this should be stored in chat history''),
                (''success'', PBool True), (''result'', fun_2_dict)],
         PStr ''result = 3'',
         PStr ''fun_1fun_1fun_1fun_1'',
         PStr ''fun_2 using proper yield format ** should be stored in history and be showed in terminal **'',
         PDict [(''DICT fun_2'', PStr ''this should be stored in chat history''),
                (''success'', PBool True), (''result'', fun_2_dict)],
         PStr ''result = 3'']) \<noteq>
   dumps_example False
     (PList
        [PStr ''fun_1fun_1fun_1fun_1'',
         PStr ''fun_2 using proper yield format ** should be stored in history and be showed in terminal **'',
         PDict [(''DICT fun_2'', PStr ''this should be stored in chat history''),
                (''success'', PBool True), (''result'', fun_2_dict)],
         PStr ''result = 3''])"
  by simp

lemma handle_tool_call_parser_raises:
  assumes "nonempty (tc_arguments tc) = Some piece"
      and "loads env (partial_args s @ piece) = Inl e"
      and "e \<noteq> Error ''JSONDecodeError''"
  shows "handle_tool_call env tc s =
     Raised e ((snd (id_of env tc s))
            \<lparr>tool_name := Some (name_of tc), partial_args := partial_args s @ piece\<rparr>)"
  using assms
  by (simp add: handle_tool_call_cases id_of_def split: option.splits)

lemma mixed_calls_run:
  "ask_question (example_env (mixed_calls, None) (closing, None)) ''add 1 and 2'' [] =
     Done \<lparr>history =
             [User ''add 1 and 2'',
              AssistantToolCall
                [\<lparr>call_id = ''call_B'', call_name = ''fun_2'',
                  call_arguments = dumps_example True (PDict [(''a'', PInt 1), (''b'', PInt 2)])\<rparr>],
              ToolResult ''call_B'' ''fun_2''
                (dumps_example False (PList (stored (fun_2_items @ [result_item ''3''])))),
              AssistantText ''Here is the result.''],
           collected = ''Here is the result.'',
           partial_args = [],
           tool_name = Some ''fun_2'',
           tool_output_chunks = stored (fun_2_items @ [result_item ''3'']),
           yielded =
             shown (fun_2_items @ [result_item ''3'']) @ [PStr ''Here is '', PStr ''the result.''],
           requests =
             [primary_request [User ''add 1 and 2''],
              followup_request
                [User ''add 1 and 2'',
                 AssistantToolCall
                   [\<lparr>call_id = ''call_B'', call_name = ''fun_2'',
                     call_arguments = dumps_example True (PDict [(''a'', PInt 1), (''b'', PInt 2)])\<rparr>],
                 ToolResult ''call_B'' ''fun_2''
                   (dumps_example False (PList (stored (fun_2_items @ [result_item ''3'']))))]],
           ticks = 0\<rparr>"
  by (simp add: run_simps mixed_calls_def closing_def stored_append stored_result_item
       del: dumps_example.simps)

lemma long_call_run:
  "ask_question (example_env (long_call, None) (closing, None)) ''add'' [] =
     Raised (Error ''ValueError'')
       \<lparr>history = [User ''add'', AssistantText []],
        collected = [],
        partial_args = long_literal,
        tool_name = Some ''fun_2'',
        tool_output_chunks = [],
        yielded = [],
        requests = [primary_request [User ''add'']],
        ticks = 0\<rparr>"
  by (simp add: run_simps long_call_def)

lemma opening_env_simps [simp]:
  "loads (opening_env p f) = loads_example"
  "dumps (opening_env p f) = dumps_example"
  "time_ms (opening_env p f) = (\<lambda>k. 1700000000000 + int k)"
  "py_add (opening_env p f) = py_add_example"
  "py_str (opening_env p f) = py_str_example"
  by (simp_all add: opening_env_def)

lemma create_opening:
  "create (opening_env p f) (primary_request h) = p"
  "create (opening_env p f) (followup_request h) = f"
  by (simp_all add: opening_env_def primary_request_def followup_request_def)

lemma fun_2_opening_ints:
  "fun_2 (opening_env p f) (PDict [(''a'', PInt x), (''b'', PInt y)]) =
     (fun_2_items @ [result_item (str_int (x + y))], None)"
  by (simp add: fun_2_def bind_fun_2_def result_item_def)

section \<open>Normalisation of a yielded item\<close>

text \<open>
  Claim C5. Normalising a raw item: an item that is not a dict becomes
  \<^verbatim>\<open>{"display": item, "store": False}\<close>; a dict keeps its \<^verbatim>\<open>store\<close> value or
  gets \<^verbatim>\<open>False\<close> when it has none; a dict keeps its \<^verbatim>\<open>display\<close> value, and
  when it has none the display value is the dict of all its items except \<^verbatim>\<open>store\<close>,
  or the empty string when there is no such item; the other keys of a dict are left as they
  are. In particular the raw item \<^verbatim>\<open>{}\<close> gets the display value \<^verbatim>\<open>""\<close>.
\<close>

theorem normalize_rules:
  "((\<forall>d. raw \<noteq> PDict d) \<longrightarrow>
      normalize raw = [(''display'', raw), (''store'', PBool False)]) \<and>
   (\<forall>d. raw = PDict d \<longrightarrow>
      map_of (normalize raw) ''store'' =
        (if has_key ''store'' d then map_of d ''store'' else Some (PBool False)) \<and>
      map_of (normalize raw) ''display'' =
        (if has_key ''display'' d then map_of d ''display''
         else if filter (\<lambda>(k, v). k \<noteq> ''store'') d \<noteq> []
              then Some (PDict (filter (\<lambda>(k, v). k \<noteq> ''store'') d))
              else Some (PStr [])) \<and>
      (\<forall>k. k \<noteq> ''display'' \<and> k \<noteq> ''store'' \<longrightarrow> map_of (normalize raw) k = map_of d k)) \<and>
   map_of (normalize (PDict [])) ''display'' = Some (PStr [])"
proof (intro conjI allI impI)
  assume "\<forall>d. raw \<noteq> PDict d"
  then show "normalize raw = [(''display'', raw), (''store'', PBool False)]"
    by (cases raw) (simp_all add: normalize_def)
next
  fix d assume "raw = PDict d"
  then show "map_of (normalize raw) ''store'' =
        (if has_key ''store'' d then map_of d ''store'' else Some (PBool False))"
    by (simp add: normalize_def Let_def map_of_setitem has_key_setitem)
next
  fix d assume r: "raw = PDict d"
  show "map_of (normalize raw) ''display'' =
        (if has_key ''display'' d then map_of d ''display''
         else if filter (\<lambda>(k, v). k \<noteq> ''store'') d \<noteq> []
              then Some (PDict (filter (\<lambda>(k, v). k \<noteq> ''store'') d))
              else Some (PStr []))"
  proof (cases "has_key ''store'' d")
    case True
    then show ?thesis
      by (simp add: r normalize_def Let_def map_of_setitem)
  next
    case False
    then show ?thesis
      by (simp add: r normalize_def Let_def map_of_setitem has_key_setitem filter_setitem)
  qed
next
  fix d k assume "raw = PDict d" and "k \<noteq> ''display'' \<and> k \<noteq> ''store''"
  then show "map_of (normalize raw) k = map_of d k"
    by (simp add: normalize_def Let_def map_of_setitem)
next
  show "map_of (normalize (PDict [])) ''display'' = Some (PStr [])"
    by (simp add: normalize_def has_key_def)
qed

theorem normalize_rules_witness:
  "normalize (PStr ''x'') = [(''display'', PStr ''x''), (''store'', PBool False)] \<and>
   map_of (normalize (PDict [(''display'', PStr ''x'')])) ''store'' = Some (PBool False) \<and>
   map_of (normalize (PDict [(''display'', PStr ''x'')])) ''display'' = Some (PStr ''x'') \<and>
   map_of (normalize (PDict [(''code'', PInt 200), (''foo'', PStr ''bar'')])) ''display'' =
     Some (PDict [(''code'', PInt 200), (''foo'', PStr ''bar'')]) \<and>
   map_of (normalize (PDict [(''code'', PInt 200), (''foo'', PStr ''bar'')])) ''store'' =
     Some (PBool False) \<and>
   map_of (normalize (PDict [(''store'', PBool True)])) ''display'' = Some (PStr [])"
  using normalize_rules [of "PStr ''x''"]
    normalize_rules [of "PDict [(''display'', PStr ''x'')]"]
    normalize_rules [of "PDict [(''code'', PInt 200), (''foo'', PStr ''bar'')]"]
    normalize_rules [of "PDict [(''store'', PBool True)]"]
  by (simp add: has_key_def)

section \<open>What a tool run shows and what it stores\<close>

text \<open>
  Claim C6, as it is written, says that the content of the tool message is the array of the
  display values that the run of the tool stored. The list \<^verbatim>\<open>tool_output_chunks\<close>
  that line 211 serialises is the one list of the whole \<^verbatim>\<open>ask_question\<close> call.
  Here the stream carries the same tool call twice: the second run of the tool stores four
  values, and the content of its tool message is the array of eight values, those of the
  first run followed by those of the second.
\<close>

theorem second_result_repeats_first:
  "history (state_of (ask_question (example_env (repeated_call, None) (closing, None)) ''add again'' []))
     ! 4 =
     ToolResult ''call_B'' ''fun_2''
       (dumps_example False
          (PList
             [PStr ''fun_1fun_1fun_1fun_1'',
              PStr ''fun_2 using proper yield format ** should be stored in history and be showed in terminal **'',
              PDict [(''DICT fun_2'', PStr ''this should be stored in chat history''),
                     (''success'', PBool True), (''result'', fun_2_dict)],
              PStr ''result = 3'',
              PStr ''fun_1fun_1fun_1fun_1'',
              PStr ''fun_2 using proper yield format ** should be stored in history and be showed in terminal **'',
              PDict [(''DICT fun_2'', PStr ''this should be stored in chat history''),
                     (''success'', PBool True), (''result'', fun_2_dict)],
              PStr ''result = 3''])) \<and>
   stored (fst (fun_2 (example_env (repeated_call, None) (closing, None))
                  (PDict [(''a'', PInt 1), (''b'', PInt 2)]))) =
     [PStr ''fun_1fun_1fun_1fun_1'',
      PStr ''fun_2 using proper yield format ** should be stored in history and be showed in terminal **'',
      PDict [(''DICT fun_2'', PStr ''this should be stored in chat history''),
             (''success'', PBool True), (''result'', fun_2_dict)],
      PStr ''result = 3''] \<and>
   dumps_example False
     (PList
        [PStr ''fun_1fun_1fun_1fun_1'',
         PStr ''fun_2 using proper yield format ** should be stored in history and be showed in terminal **'',
         PDict [(''DICT fun_2'', PStr ''this should be stored in chat history''),
                (''success'', PBool True), (''result'', fun_2_dict)],
         PStr ''result = 3'',
         PStr ''fun_1fun_1fun_1fun_1'',
         PStr ''fun_2 using proper yield format ** should be stored in history and be showed in terminal **'',
         PDict [(''DICT fun_2'', PStr ''this should be stored in chat history''),
                (''success'', PBool True), (''result'', fun_2_dict)],
         PStr ''result = 3'']) \<noteq>
   dumps_example False
     (PList
        [PStr ''fun_1fun_1fun_1fun_1'',
         PStr ''fun_2 using proper yield format ** should be stored in history and be showed in terminal **'',
         PDict [(''DICT fun_2'', PStr ''this should be stored in chat history''),
                (''success'', PBool True), (''result'', fun_2_dict)],
         PStr ''result = 3''])"
proof -
  have c: "stored (fun_2_items @ [result_item ''3'']) =
     [PStr ''fun_1fun_1fun_1fun_1'',
      PStr ''fun_2 using proper yield format ** should be stored in history and be showed in terminal **'',
      PDict [(''DICT fun_2'', PStr ''this should be stored in chat history''),
             (''success'', PBool True), (''result'', fun_2_dict)],
      PStr ''result = 3'']"
    by (simp add: stored_append stored_result_item stored_fun_2_items)
  have b: "stored (fst (fun_2 (example_env (repeated_call, None) (closing, None))
                  (PDict [(''a'', PInt 1), (''b'', PInt 2)]))) =
             stored (fun_2_items @ [result_item ''3''])"
    by (simp add: fun_2_example_ints str_int_examples)
  have h: "history (state_of (ask_question (example_env (repeated_call, None) (closing, None)) ''add again'' []))
     ! 4 =
     ToolResult ''call_B'' ''fun_2''
       (dumps_example False
          (PList (stored (fun_2_items @ [result_item ''3'']) @ stored (fun_2_items @ [result_item ''3'']))))"
    by (simp add: repeated_call_run del: dumps_example.simps)
  have a: "stored (fun_2_items @ [result_item ''3'']) @ stored (fun_2_items @ [result_item ''3'']) =
     [PStr ''fun_1fun_1fun_1fun_1'',
      PStr ''fun_2 using proper yield format ** should be stored in history and be showed in terminal **'',
      PDict [(''DICT fun_2'', PStr ''this should be stored in chat history''),
             (''success'', PBool True), (''result'', fun_2_dict)],
      PStr ''result = 3'',
      PStr ''fun_1fun_1fun_1fun_1'',
      PStr ''fun_2 using proper yield format ** should be stored in history and be showed in terminal **'',
      PDict [(''DICT fun_2'', PStr ''this should be stored in chat history''),
             (''success'', PBool True), (''result'', fun_2_dict)],
      PStr ''result = 3'']"
    by (simp add: c)
  from h [unfolded a] b [unfolded c] repeated_call_payloads show ?thesis
    by (intro conjI)
qed

text \<open>
  Claim C6, amended. The code runs one tool, \<^verbatim>\<open>fun_2\<close>, and tests the display
  value and the \<^verbatim>\<open>store\<close> value of each normalised item for their truth value
  (lines 203 and 207). On every item that \<^verbatim>\<open>fun_2\<close> produces, whatever its
  arguments, this is the test of the claim: the display value is yielded to the caller if
  and only if it is not empty, and it is appended to \<^verbatim>\<open>tool_output_chunks\<close> if
  and only if \<^verbatim>\<open>store\<close> is \<^verbatim>\<open>True\<close>, whether or not it was yielded; both
  in the order of production, also when the tool raises after some items. When the tool
  finishes, the content of the tool message is \<^verbatim>\<open>json.dumps\<close> of the list of the
  display values stored so far in the call of \<^verbatim>\<open>ask_question\<close>: those stored
  before this run, followed by those stored by this run, in the order of production.
\<close>

theorem fun_2_items_shown_and_stored:
  "(\<forall>raw \<in> set (fst (fun_2 env args)). \<forall>s0.
      consume_yield raw s0 =
        Done (s0\<lparr>yielded := yielded s0 @ (if is_empty (display_of raw) then [] else [display_of raw]),
                 tool_output_chunks :=
                   tool_output_chunks s0 @
                   (if map_of (normalize raw) ''store'' = Some (PBool True)
                    then [display_of raw] else [])\<rparr>)) \<and>
   yielded (state_of (dispatch env name tool_id args s)) =
     yielded s @ filter (\<lambda>v. \<not> is_empty v) (map display_of (fst (fun_2 env args))) \<and>
   tool_output_chunks (state_of (dispatch env name tool_id args s)) =
     tool_output_chunks s @
     map display_of (filter (\<lambda>raw. map_of (normalize raw) ''store'' = Some (PBool True))
                       (fst (fun_2 env args))) \<and>
   (snd (fun_2 env args) = None \<longrightarrow>
      (\<exists>s'. dispatch env name tool_id args s = Done s' \<and>
            last (history s') =
              ToolResult tool_id name
                (dumps env False
                   (PList (tool_output_chunks s @
                           map display_of
                             (filter (\<lambda>raw. map_of (normalize raw) ''store'' = Some (PBool True))
                                (fst (fun_2 env args))))))))"
proof (intro conjI ballI allI impI)
  fix raw s0
  assume "raw \<in> set (fst (fun_2 env args))"
  then show "consume_yield raw s0 =
        Done (s0\<lparr>yielded := yielded s0 @ (if is_empty (display_of raw) then [] else [display_of raw]),
                 tool_output_chunks :=
                   tool_output_chunks s0 @
                   (if map_of (normalize raw) ''store'' = Some (PBool True)
                    then [display_of raw] else [])\<rparr>)"
    by (simp add: consume_yield_eq fun_2_item_tests)
next
  show "yielded (state_of (dispatch env name tool_id args s)) =
     yielded s @ filter (\<lambda>v. \<not> is_empty v) (map display_of (fst (fun_2 env args)))"
    by (simp add: dispatch_eq shown_fun_2 [symmetric] split: option.splits)
next
  show "tool_output_chunks (state_of (dispatch env name tool_id args s)) =
     tool_output_chunks s @
     map display_of (filter (\<lambda>raw. map_of (normalize raw) ''store'' = Some (PBool True))
                       (fst (fun_2 env args)))"
    by (simp add: dispatch_eq stored_fun_2 [symmetric] split: option.splits)
next
  assume "snd (fun_2 env args) = None"
  then show "\<exists>s'. dispatch env name tool_id args s = Done s' \<and>
            last (history s') =
              ToolResult tool_id name
                (dumps env False
                   (PList (tool_output_chunks s @
                           map display_of
                             (filter (\<lambda>raw. map_of (normalize raw) ''store'' = Some (PBool True))
                                (fst (fun_2 env args))))))"
    by (simp add: dispatch_eq stored_fun_2 [symmetric])
qed

theorem fun_2_items_shown_and_stored_witness:
  "consume_yield PNone (start_state ''add 1 and 2'' []) = Done (start_state ''add 1 and 2'' []) \<and>
   consume_yield (PDict []) (start_state ''add 1 and 2'' []) = Done (start_state ''add 1 and 2'' []) \<and>
   consume_yield (PStr ''LAST OF: fun_1'') (start_state ''add 1 and 2'' []) =
     Done ((start_state ''add 1 and 2'' [])\<lparr>yielded := [PStr ''LAST OF: fun_1'']\<rparr>) \<and>
   yielded (state_of (dispatch (example_env ([], None) ([], None)) ''fun_2'' ''call_A''
      (PDict [(''a'', PInt 1), (''b'', PInt 2)]) (start_state ''add 1 and 2'' []))) =
     [PStr ''fun_1fun_1fun_1fun_1'',
      PStr ''LAST OF: fun_1'',
      PStr ''fun_2 plain string test ** only be showed in terminal **'',
      PStr ''fun_2 using proper yield format ** should be stored in history and be showed in terminal **'',
      PStr ''fun_2 using proper yield format ** should not be stored in history and be showed in terminal **'',
      PDict [(''DICT fun_2'', PStr ''this should be stored in chat history''),
             (''success'', PBool True), (''result'', fun_2_dict)],
      PStr ''result = 3''] \<and>
   tool_output_chunks (state_of (dispatch (example_env ([], None) ([], None)) ''fun_2'' ''call_A''
      (PDict [(''a'', PInt 1), (''b'', PInt 2)]) (start_state ''add 1 and 2'' []))) =
     [PStr ''fun_1fun_1fun_1fun_1'',
      PStr ''fun_2 using proper yield format ** should be stored in history and be showed in terminal **'',
      PDict [(''DICT fun_2'', PStr ''this should be stored in chat history''),
             (''success'', PBool True), (''result'', fun_2_dict)],
      PStr ''result = 3''] \<and>
   (\<exists>s'. dispatch (example_env ([], None) ([], None)) ''fun_2'' ''call_A''
            (PDict [(''a'', PInt 1), (''b'', PInt 2)]) (start_state ''add 1 and 2'' []) = Done s' \<and>
         last (history s') =
           ToolResult ''call_A'' ''fun_2''
             (dumps_example False
                (PList [PStr ''fun_1fun_1fun_1fun_1'',
                        PStr ''fun_2 using proper yield format ** should be stored in history and be showed in terminal **'',
                        PDict [(''DICT fun_2'', PStr ''this should be stored in chat history''),
                               (''success'', PBool True), (''result'', fun_2_dict)],
                        PStr ''result = 3''])))"
proof -
  let ?env = "example_env ([], None) ([], None)"
  let ?args = "PDict [(''a'', PInt 1), (''b'', PInt 2)]"
  let ?items = "fun_2_items @ [PDict [(''display'', PStr ''result = 3''), (''store'', PBool True)]]"
  let ?s0 = "start_state ''add 1 and 2'' []"
  let ?st = "\<lambda>raw. map_of (normalize raw) ''store'' = Some (PBool True)"
  have f: "fst (fun_2 ?env ?args) = ?items" "snd (fun_2 ?env ?args) = None"
    by (simp_all add: fun_2_example)
  have m: "PNone \<in> set ?items" "PDict [] \<in> set ?items" "PStr ''LAST OF: fun_1'' \<in> set ?items"
    by (simp_all add: fun_2_items_def fun_1_def)
  have sh: "filter (\<lambda>v. \<not> is_empty v) (map display_of ?items) =
     [PStr ''fun_1fun_1fun_1fun_1'',
      PStr ''LAST OF: fun_1'',
      PStr ''fun_2 plain string test ** only be showed in terminal **'',
      PStr ''fun_2 using proper yield format ** should be stored in history and be showed in terminal **'',
      PStr ''fun_2 using proper yield format ** should not be stored in history and be showed in terminal **'',
      PDict [(''DICT fun_2'', PStr ''this should be stored in chat history''),
             (''success'', PBool True), (''result'', fun_2_dict)],
      PStr ''result = 3'']"
    by (simp add: fun_2_items_def fun_1_def display_of_simps)
  have st: "map display_of (filter ?st ?items) =
     [PStr ''fun_1fun_1fun_1fun_1'',
      PStr ''fun_2 using proper yield format ** should be stored in history and be showed in terminal **'',
      PDict [(''DICT fun_2'', PStr ''this should be stored in chat history''),
             (''success'', PBool True), (''result'', fun_2_dict)],
      PStr ''result = 3'']"
    by (simp add: fun_2_items_def fun_1_def display_of_simps normalize_def has_key_def Let_def
          map_of_setitem)
  have e: "tool_output_chunks ?s0 = []" "yielded ?s0 = []"
    by simp_all
  have d: "dumps ?env = dumps_example"
    by simp
  note t = fun_2_items_shown_and_stored [of ?env ?args "''fun_2''" "''call_A''" ?s0, unfolded f]
  from t have items: "\<forall>raw \<in> set ?items. \<forall>s0.
      consume_yield raw s0 =
        Done (s0\<lparr>yielded := yielded s0 @ (if is_empty (display_of raw) then [] else [display_of raw]),
                 tool_output_chunks :=
                   tool_output_chunks s0 @ (if ?st raw then [display_of raw] else [])\<rparr>)"
    by blast
  from items m(1) have i1: "consume_yield PNone ?s0 = Done ?s0"
    by (simp add: display_of_simps normalize_def)
  from items m(2) have i2: "consume_yield (PDict []) ?s0 = Done ?s0"
    by (simp add: display_of_simps normalize_def has_key_def Let_def)
  from items m(3) have i3: "consume_yield (PStr ''LAST OF: fun_1'') ?s0 =
      Done (?s0\<lparr>yielded := [PStr ''LAST OF: fun_1'']\<rparr>)"
    by (simp add: display_of_simps normalize_def)
  from t have y: "yielded (state_of (dispatch ?env ''fun_2'' ''call_A'' ?args ?s0)) =
      yielded ?s0 @ filter (\<lambda>v. \<not> is_empty v) (map display_of ?items)"
    by blast
  from t have c: "tool_output_chunks (state_of (dispatch ?env ''fun_2'' ''call_A'' ?args ?s0)) =
      tool_output_chunks ?s0 @ map display_of (filter ?st ?items)"
    by blast
  from t have p: "\<exists>s'. dispatch ?env ''fun_2'' ''call_A'' ?args ?s0 = Done s' \<and>
         last (history s') =
           ToolResult ''call_A'' ''fun_2''
             (dumps ?env False (PList (tool_output_chunks ?s0 @ map display_of (filter ?st ?items))))"
    by blast
  from i1 i2 i3 y [unfolded sh e] c [unfolded st e] p [unfolded st e d] show ?thesis
    by (simp del: dumps_example.simps)
qed

section \<open>Reassembling the arguments of a tool call\<close>

text \<open>
  Claim C1, as it is written, gives every tool call a buffer of its own, and lets a parse
  that fails leave the call buffering without an exception. The code has one buffer,
  \<^verbatim>\<open>partial_args\<close>, for all the fragments of the stream, whatever their ids. In the
  first stream below a fragment of the call \<^verbatim>\<open>call_A\<close> is followed by a fragment of the
  call \<^verbatim>\<open>call_B\<close>; the text of the second fragment alone does not parse, but the two
  texts joined do, and one tool call is dispatched under the id \<^verbatim>\<open>call_B\<close>. In the
  second stream the argument text is a complete JSON document on which
  \<^verbatim>\<open>json.loads\<close> raises \<^verbatim>\<open>ValueError\<close>: the parse fails, line 220 does not
  catch the exception, and it leaves \<^verbatim>\<open>ask_question\<close>.
\<close>

theorem fragments_of_two_calls_joined:
  \<open>loads_example ''1,"b":2}'' = Inl (Error ''JSONDecodeError'') \<and>
   history (state_of (ask_question (example_env (mixed_calls, None) (closing, None))
      ''add 1 and 2'' [])) =
     [User ''add 1 and 2'',
      AssistantToolCall
        [\<lparr>call_id = ''call_B'', call_name = ''fun_2'',
          call_arguments = dumps_example True (PDict [(''a'', PInt 1), (''b'', PInt 2)])\<rparr>],
      ToolResult ''call_B'' ''fun_2''
        (dumps_example False (PList (stored (fun_2_items @ [result_item ''3''])))),
      AssistantText ''Here is the result.''] \<and>
   partial_args (state_of (ask_question (example_env (mixed_calls, None) (closing, None))
      ''add 1 and 2'' [])) = [] \<and>
   loads_example long_literal = Inl (Error ''ValueError'') \<and>
   ask_question (example_env (long_call, None) (closing, None)) ''add'' [] =
     Raised (Error ''ValueError'')
       \<lparr>history = [User ''add'', AssistantText []],
        collected = [],
        partial_args = long_literal,
        tool_name = Some ''fun_2'',
        tool_output_chunks = [],
        yielded = [],
        requests = [primary_request [User ''add'']],
        ticks = 0\<rparr>\<close>
  by (simp add: mixed_calls_run long_call_run loads_example_long del: dumps_example.simps)
     (simp add: loads_example_def)

text \<open>
  Claim C1, amended. All the tool-call fragments of a stream share the one buffer
  \<^verbatim>\<open>partial_args\<close>. A fragment with a non-empty argument text, whatever its id and
  name, is appended to the buffer and the whole buffer is parsed. When the parse fails with
  \<^verbatim>\<open>JSONDecodeError\<close> (the buffer is not a complete JSON document) the fragment is
  handled without an exception and without any message or output, and the buffer is kept.
  When the parse succeeds there is exactly one dispatch: one assistant message with the tool
  call and the parsed arguments is appended, the tool runs on these arguments, and when it
  finishes the tool message is appended and the buffer is reset to the empty string. (When
  the tool raises, the exception leaves the step with the one tool-call message appended and
  the buffer not reset.) So two fragments in a row, of any ids, whose texts parse only when
  they are joined, give exactly one dispatch with the arguments parsed from the joined text.
\<close>

theorem fragment_appended_to_shared_buffer:
  assumes "tc_arguments tc = Some piece" and "piece \<noteq> []"
  shows
    "(loads env (partial_args s @ piece) = Inl (Error ''JSONDecodeError'') \<longrightarrow>
        (\<exists>s'. handle_tool_call env tc s = Done s' \<and>
              partial_args s' = partial_args s @ piece \<and>
              history s' = history s \<and> yielded s' = yielded s \<and>
              tool_output_chunks s' = tool_output_chunks s)) \<and>
     (\<forall>args items.
        loads env (partial_args s @ piece) = Inr args \<and> fun_2 env args = (items, None) \<longrightarrow>
        (\<exists>s'. handle_tool_call env tc s = Done s' \<and>
              partial_args s' = [] \<and>
              history s' = history s @
                [AssistantToolCall [\<lparr>call_id = fst (id_of env tc s), call_name = name_of tc,
                                     call_arguments = dumps env True args\<rparr>],
                 ToolResult (fst (id_of env tc s)) (name_of tc)
                   (dumps env False (PList (tool_output_chunks s @ stored items)))] \<and>
              yielded s' = yielded s @ shown items)) \<and>
     (\<forall>args items e.
        loads env (partial_args s @ piece) = Inr args \<and> fun_2 env args = (items, Some e) \<longrightarrow>
        (\<exists>s'. handle_tool_call env tc s = Raised e s' \<and>
              partial_args s' = partial_args s @ piece \<and>
              history s' = history s @
                [AssistantToolCall [\<lparr>call_id = fst (id_of env tc s), call_name = name_of tc,
                                     call_arguments = dumps env True args\<rparr>]] \<and>
              yielded s' = yielded s @ shown items)) \<and>
     (\<forall>tc0 p0 args items.
        tc_arguments tc0 = Some p0 \<and> p0 \<noteq> [] \<and>
        loads env (partial_args s @ p0) = Inl (Error ''JSONDecodeError'') \<and>
        loads env (partial_args s @ p0 @ piece) = Inr args \<and> fun_2 env args = (items, None) \<longrightarrow>
        (\<exists>s' i. handle_tool_calls env [tc0, tc] s = Done s' \<and>
              partial_args s' = [] \<and>
              history s' = history s @
                [AssistantToolCall [\<lparr>call_id = i, call_name = name_of tc,
                                     call_arguments = dumps env True args\<rparr>],
                 ToolResult i (name_of tc)
                   (dumps env False (PList (tool_output_chunks s @ stored items)))] \<and>
              yielded s' = yielded s @ shown items))"
proof (intro conjI allI impI)
  assume "loads env (partial_args s @ piece) = Inl (Error ''JSONDecodeError'')"
  with assms show "\<exists>s'. handle_tool_call env tc s = Done s' \<and>
              partial_args s' = partial_args s @ piece \<and>
              history s' = history s \<and> yielded s' = yielded s \<and>
              tool_output_chunks s' = tool_output_chunks s"
    by (simp add: handle_tool_call_cases)
next
  fix args items
  assume "loads env (partial_args s @ piece) = Inr args \<and> fun_2 env args = (items, None)"
  with assms show "\<exists>s'. handle_tool_call env tc s = Done s' \<and>
              partial_args s' = [] \<and>
              history s' = history s @
                [AssistantToolCall [\<lparr>call_id = fst (id_of env tc s), call_name = name_of tc,
                                     call_arguments = dumps env True args\<rparr>],
                 ToolResult (fst (id_of env tc s)) (name_of tc)
                   (dumps env False (PList (tool_output_chunks s @ stored items)))] \<and>
              yielded s' = yielded s @ shown items"
    by (simp add: handle_tool_call_cases dispatch_eq)
next
  fix args items e
  assume "loads env (partial_args s @ piece) = Inr args \<and> fun_2 env args = (items, Some e)"
  with assms show "\<exists>s'. handle_tool_call env tc s = Raised e s' \<and>
              partial_args s' = partial_args s @ piece \<and>
              history s' = history s @
                [AssistantToolCall [\<lparr>call_id = fst (id_of env tc s), call_name = name_of tc,
                                     call_arguments = dumps env True args\<rparr>]] \<and>
              yielded s' = yielded s @ shown items"
    by (simp add: handle_tool_call_cases dispatch_eq)
next
  fix tc0 :: tool_call_delta and p0 args items
  assume a: "tc_arguments tc0 = Some p0 \<and> p0 \<noteq> [] \<and>
        loads env (partial_args s @ p0) = Inl (Error ''JSONDecodeError'') \<and>
        loads env (partial_args s @ p0 @ piece) = Inr args \<and> fun_2 env args = (items, None)"
  let ?s1 = "(snd (id_of env tc0 s))
            \<lparr>tool_name := Some (name_of tc0), partial_args := partial_args s @ p0\<rparr>"
  from a have n0: "nonempty (tc_arguments tc0) = Some p0"
    by simp
  from assms have n: "nonempty (tc_arguments tc) = Some piece"
    by simp
  from a have first: "handle_tool_call env tc0 s = Done ?s1"
    using handle_tool_call_buffering [OF n0] by simp
  from a have l: "loads env (partial_args ?s1 @ piece) = Inr args"
    by simp
  from a have f: "fun_2 env args = (items, None)"
    by simp
  note second = handle_tool_call_done [OF n l f]
  show "\<exists>s' i. handle_tool_calls env [tc0, tc] s = Done s' \<and>
              partial_args s' = [] \<and>
              history s' = history s @
                [AssistantToolCall [\<lparr>call_id = i, call_name = name_of tc,
                                     call_arguments = dumps env True args\<rparr>],
                 ToolResult i (name_of tc)
                   (dumps env False (PList (tool_output_chunks s @ stored items)))] \<and>
              yielded s' = yielded s @ shown items"
    by (simp add: first second)
qed

theorem fragment_appended_to_shared_buffer_witness:
  \<open>\<exists>s1 s2.
     handle_tool_call (example_env ([], None) ([], None))
       \<lparr>tc_id = Some ''call_A'', tc_name = Some ''fun_2'', tc_arguments = Some ''{"a":''\<rparr>
       (start_state ''add 1 and 2'' []) = Done s1 \<and>
     partial_args s1 = ''{"a":'' \<and>
     history s1 = [User ''add 1 and 2''] \<and>
     handle_tool_call (example_env ([], None) ([], None))
       \<lparr>tc_id = Some ''call_A'', tc_name = Some ''fun_2'', tc_arguments = Some ''1,"b":2}''\<rparr>
       s1 = Done s2 \<and>
     partial_args s2 = [] \<and>
     history s2 =
       [User ''add 1 and 2'',
        AssistantToolCall
          [\<lparr>call_id = ''call_A'', call_name = ''fun_2'',
            call_arguments = dumps_example True (PDict [(''a'', PInt 1), (''b'', PInt 2)])\<rparr>],
        ToolResult ''call_A'' ''fun_2''
          (dumps_example False
             (PList (stored (fun_2_items @
                [PDict [(''display'', PStr ''result = 3''), (''store'', PBool True)]]))))] \<and>
     (\<exists>s' i.
        handle_tool_calls (example_env ([], None) ([], None))
          [\<lparr>tc_id = Some ''call_A'', tc_name = Some ''fun_2'', tc_arguments = Some ''{"a":''\<rparr>,
           \<lparr>tc_id = Some ''call_A'', tc_name = Some ''fun_2'', tc_arguments = Some ''1,"b":2}''\<rparr>]
          (start_state ''add 1 and 2'' []) = Done s' \<and>
        partial_args s' = [] \<and>
        history s' =
          [User ''add 1 and 2'',
           AssistantToolCall
             [\<lparr>call_id = i, call_name = ''fun_2'',
               call_arguments = dumps_example True (PDict [(''a'', PInt 1), (''b'', PInt 2)])\<rparr>],
           ToolResult i ''fun_2''
             (dumps_example False
                (PList (stored (fun_2_items @
                   [PDict [(''display'', PStr ''result = 3''), (''store'', PBool True)]]))))])\<close>
proof -
  let ?env = "example_env ([], None) ([], None)"
  let ?s0 = "start_state ''add 1 and 2'' []"
  let ?tc1 = \<open>\<lparr>tc_id = Some ''call_A'', tc_name = Some ''fun_2'', tc_arguments = Some ''{"a":''\<rparr>\<close>
  let ?tc2 = \<open>\<lparr>tc_id = Some ''call_A'', tc_name = Some ''fun_2'', tc_arguments = Some ''1,"b":2}''\<rparr>\<close>
  let ?args = "PDict [(''a'', PInt 1), (''b'', PInt 2)]"
  let ?items = "fun_2_items @ [PDict [(''display'', PStr ''result = 3''), (''store'', PBool True)]]"
  have l1: \<open>loads ?env (partial_args ?s0 @ ''{"a":'') = Inl (Error ''JSONDecodeError'')\<close>
    by (simp add: example_env_def loads_example_def start_state_def)
  have t1: \<open>tc_arguments ?tc1 = Some ''{"a":''\<close> \<open>''{"a":'' \<noteq> []\<close>
    by simp_all
  have t2: \<open>tc_arguments ?tc2 = Some ''1,"b":2}''\<close> \<open>''1,"b":2}'' \<noteq> []\<close>
    by simp_all
  from fragment_appended_to_shared_buffer [OF t1, of ?env ?s0] l1
  obtain s1 where s1: "handle_tool_call ?env ?tc1 ?s0 = Done s1"
      \<open>partial_args s1 = partial_args ?s0 @ ''{"a":''\<close> "history s1 = history ?s0"
      "tool_output_chunks s1 = tool_output_chunks ?s0"
    by blast
  have l2: \<open>loads ?env (partial_args s1 @ ''1,"b":2}'') = Inr ?args\<close>
    by (simp add: s1 example_env_def loads_example_def start_state_def)
  have f: "fun_2 ?env ?args = (?items, None)"
    by (rule fun_2_example)
  from fragment_appended_to_shared_buffer [OF t2, of ?env s1] l2 f
  obtain s2 where s2: "handle_tool_call ?env ?tc2 s1 = Done s2" "partial_args s2 = []"
      "history s2 = history s1 @
                [AssistantToolCall [\<lparr>call_id = fst (id_of ?env ?tc2 s1), call_name = name_of ?tc2,
                                     call_arguments = dumps ?env True ?args\<rparr>],
                 ToolResult (fst (id_of ?env ?tc2 s1)) (name_of ?tc2)
                   (dumps ?env False (PList (tool_output_chunks s1 @ stored ?items)))]"
    by blast
  have d: "dumps ?env = dumps_example"
    by (simp add: example_env_def)
  have n: "name_of ?tc2 = ''fun_2''" "fst (id_of ?env ?tc2 s1) = ''call_A''"
    by (simp_all add: name_of_def id_of_def nonempty_def)
  have h: "history s2 =
       [User ''add 1 and 2'',
        AssistantToolCall
          [\<lparr>call_id = ''call_A'', call_name = ''fun_2'',
            call_arguments = dumps_example True ?args\<rparr>],
        ToolResult ''call_A'' ''fun_2'' (dumps_example False (PList (stored ?items)))]"
    unfolding s2(3) n d s1(3) s1(4) by (simp add: start_state_def del: dumps_example.simps)
  have p: \<open>partial_args s1 = ''{"a":''\<close>
    by (simp add: s1 start_state_def)
  have h1: "history s1 = [User ''add 1 and 2'']"
    by (simp add: s1 start_state_def)
  have l3: \<open>loads ?env (partial_args ?s0 @ ''{"a":'' @ ''1,"b":2}'') = Inr ?args\<close>
    by (simp add: example_env_def loads_example_def start_state_def)
  from fragment_appended_to_shared_buffer [OF t2, of ?env ?s0] t1 l1 l3 f
  have "\<exists>s' i. handle_tool_calls ?env [?tc1, ?tc2] ?s0 = Done s' \<and>
              partial_args s' = [] \<and>
              history s' = history ?s0 @
                [AssistantToolCall [\<lparr>call_id = i, call_name = name_of ?tc2,
                                     call_arguments = dumps ?env True ?args\<rparr>],
                 ToolResult i (name_of ?tc2)
                   (dumps ?env False (PList (tool_output_chunks ?s0 @ stored ?items)))]"
    by blast
  then have both: "\<exists>s' i. handle_tool_calls ?env [?tc1, ?tc2] ?s0 = Done s' \<and>
              partial_args s' = [] \<and>
              history s' =
                [User ''add 1 and 2'',
                 AssistantToolCall [\<lparr>call_id = i, call_name = ''fun_2'',
                                     call_arguments = dumps_example True ?args\<rparr>],
                 ToolResult i ''fun_2'' (dumps_example False (PList (stored ?items)))]"
    unfolding n d by (simp add: start_state_def del: dumps_example.simps)
  from s1(1) p h1 s2(1) s2(2) h both show ?thesis
    by blast
qed

section \<open>The name of the tool\<close>

text \<open>
  Claim C8. A fragment that carries no function name (the attribute is missing,
  \<^verbatim>\<open>None\<close> or the empty string) sets \<^verbatim>\<open>tool_name\<close> to the fixed string
  \<^verbatim>\<open>"worlds"\<close>. When the arguments parse at such a fragment the dispatch is made all the
  same: the tool-call message carries the name \<^verbatim>\<open>"worlds"\<close>, the tool runs, and the
  only exception that can leave the step is one that the tool itself raises.
\<close>

theorem missing_name_defaults_to_worlds:
  assumes "tc_name tc = None \<or> tc_name tc = Some []"
  shows
    "tool_name (state_of (handle_tool_call env tc s)) = Some ''worlds'' \<and>
     (\<forall>piece args.
        nonempty (tc_arguments tc) = Some piece \<and> loads env (partial_args s @ piece) = Inr args \<longrightarrow>
        raised_of (handle_tool_call env tc s) = snd (fun_2 env args) \<and>
        yielded (state_of (handle_tool_call env tc s)) = yielded s @ shown (fst (fun_2 env args)) \<and>
        (\<exists>c rest.
           history (state_of (handle_tool_call env tc s)) = history s @ AssistantToolCall [c] # rest \<and>
           call_name c = ''worlds'' \<and> call_arguments c = dumps env True args \<and>
           (snd (fun_2 env args) = None \<longrightarrow>
              rest = [ToolResult (call_id c) ''worlds''
                        (dumps env False
                           (PList (tool_output_chunks s @ stored (fst (fun_2 env args)))))])))"
proof (intro conjI allI impI)
  show "tool_name (state_of (handle_tool_call env tc s)) = Some ''worlds''"
    using assms by (simp add: handle_tool_call_tool_name name_of_missing)
next
  fix piece args
  assume a: "nonempty (tc_arguments tc) = Some piece \<and> loads env (partial_args s @ piece) = Inr args"
  then show "raised_of (handle_tool_call env tc s) = snd (fun_2 env args)"
    by (simp add: handle_tool_call_cases dispatch_eq Let_def split: option.splits)
  from a show "yielded (state_of (handle_tool_call env tc s)) = yielded s @ shown (fst (fun_2 env args))"
    by (simp add: handle_tool_call_cases dispatch_eq Let_def split: option.splits)
  from a assms show "\<exists>c rest.
           history (state_of (handle_tool_call env tc s)) = history s @ AssistantToolCall [c] # rest \<and>
           call_name c = ''worlds'' \<and> call_arguments c = dumps env True args \<and>
           (snd (fun_2 env args) = None \<longrightarrow>
              rest = [ToolResult (call_id c) ''worlds''
                        (dumps env False
                           (PList (tool_output_chunks s @ stored (fst (fun_2 env args)))))])"
    by (simp add: handle_tool_call_cases dispatch_eq name_of_missing Let_def split: option.splits)
qed


theorem missing_name_defaults_to_worlds_witness:
  \<open>tool_name (state_of (handle_tool_call (example_env ([], None) ([], None))
       \<lparr>tc_id = Some ''call_A'', tc_name = None, tc_arguments = Some ''{"a":1,"b":2}''\<rparr>
       (start_state ''add 1 and 2'' []))) = Some ''worlds'' \<and>
   raised_of (handle_tool_call (example_env ([], None) ([], None))
       \<lparr>tc_id = Some ''call_A'', tc_name = None, tc_arguments = Some ''{"a":1,"b":2}''\<rparr>
       (start_state ''add 1 and 2'' [])) = None \<and>
   (\<exists>c. history (state_of (handle_tool_call (example_env ([], None) ([], None))
       \<lparr>tc_id = Some ''call_A'', tc_name = None, tc_arguments = Some ''{"a":1,"b":2}''\<rparr>
       (start_state ''add 1 and 2'' []))) =
        [User ''add 1 and 2'', AssistantToolCall [c],
         ToolResult (call_id c) ''worlds''
           (dumps_example False
              (PList (stored (fun_2_items @
                 [PDict [(''display'', PStr ''result = 3''), (''store'', PBool True)]]))))] \<and>
        call_name c = ''worlds'')\<close>
proof -
  let ?env = "example_env ([], None) ([], None)"
  let ?s0 = "start_state ''add 1 and 2'' []"
  let ?tc = \<open>\<lparr>tc_id = Some ''call_A'', tc_name = None, tc_arguments = Some ''{"a":1,"b":2}''\<rparr>\<close>
  let ?args = "PDict [(''a'', PInt 1), (''b'', PInt 2)]"
  let ?items = "fun_2_items @ [PDict [(''display'', PStr ''result = 3''), (''store'', PBool True)]]"
  have a: "tc_name ?tc = None \<or> tc_name ?tc = Some []"
    by simp
  have b: \<open>nonempty (tc_arguments ?tc) = Some ''{"a":1,"b":2}'' \<and>
           loads ?env (partial_args ?s0 @ ''{"a":1,"b":2}'') = Inr ?args\<close>
    by (simp add: loads_example_def start_state_def)
  have f: "snd (fun_2 ?env ?args) = None" "fst (fun_2 ?env ?args) = ?items"
    by (simp_all add: fun_2_example)
  have e: "tool_output_chunks ?s0 = []" "history ?s0 = [User ''add 1 and 2'']"
    by (simp_all add: start_state_def)
  from missing_name_defaults_to_worlds [OF a, of ?env ?s0]
  have t1: "tool_name (state_of (handle_tool_call ?env ?tc ?s0)) = Some ''worlds''"
    and t2: "\<forall>piece args.
        nonempty (tc_arguments ?tc) = Some piece \<and> loads ?env (partial_args ?s0 @ piece) = Inr args \<longrightarrow>
        raised_of (handle_tool_call ?env ?tc ?s0) = snd (fun_2 ?env args) \<and>
        yielded (state_of (handle_tool_call ?env ?tc ?s0)) = yielded ?s0 @ shown (fst (fun_2 ?env args)) \<and>
        (\<exists>c rest.
           history (state_of (handle_tool_call ?env ?tc ?s0)) = history ?s0 @ AssistantToolCall [c] # rest \<and>
           call_name c = ''worlds'' \<and> call_arguments c = dumps ?env True args \<and>
           (snd (fun_2 ?env args) = None \<longrightarrow>
              rest = [ToolResult (call_id c) ''worlds''
                        (dumps ?env False
                           (PList (tool_output_chunks ?s0 @ stored (fst (fun_2 ?env args)))))]))"
    by blast+
  from t2 b have t3: "raised_of (handle_tool_call ?env ?tc ?s0) = snd (fun_2 ?env ?args)"
    and t4: "\<exists>c rest.
           history (state_of (handle_tool_call ?env ?tc ?s0)) = history ?s0 @ AssistantToolCall [c] # rest \<and>
           call_name c = ''worlds'' \<and> call_arguments c = dumps ?env True ?args \<and>
           (snd (fun_2 ?env ?args) = None \<longrightarrow>
              rest = [ToolResult (call_id c) ''worlds''
                        (dumps ?env False
                           (PList (tool_output_chunks ?s0 @ stored (fst (fun_2 ?env ?args)))))])"
    by blast+
  from t4 [unfolded f e] obtain c where
    "history (state_of (handle_tool_call ?env ?tc ?s0)) =
        [User ''add 1 and 2''] @ [AssistantToolCall [c],
         ToolResult (call_id c) ''worlds'' (dumps ?env False (PList ([] @ stored ?items)))]"
    "call_name c = ''worlds''"
    by auto
  then have "\<exists>c. history (state_of (handle_tool_call ?env ?tc ?s0)) =
        [User ''add 1 and 2'', AssistantToolCall [c],
         ToolResult (call_id c) ''worlds'' (dumps_example False (PList (stored ?items)))] \<and>
        call_name c = ''worlds''"
    by (simp del: dumps_example.simps)
  with t1 t3 [unfolded f] show ?thesis
    by blast
qed

section \<open>The name and the id come from the fragment at which the arguments parse\<close>

text \<open>
  Claim C10. The name and the id of a tool call are computed anew at every fragment. Let
  the fragments \<open>pre\<close> be handled without an exception, and let the buffer parse at the next
  fragment \<open>tc\<close>. Then the name and the id in the tool-call message and in the tool message
  are those of \<open>tc\<close> alone, whatever the fragments of \<open>pre\<close> supplied: the name is the
  function name of \<open>tc\<close>, or \<^verbatim>\<open>"worlds"\<close> when \<open>tc\<close> has none, and the id is the id of
  \<open>tc\<close>, or \<^verbatim>\<open>call_\<close> followed by the clock reading in milliseconds when \<open>tc\<close> has none.
\<close>

theorem name_and_id_of_parsing_fragment:
  assumes "handle_tool_calls env pre s = Done s1"
      and "nonempty (tc_arguments tc) = Some piece"
      and "loads env (partial_args s1 @ piece) = Inr args"
  shows
    "let i = (case nonempty (tc_id tc) of
                Some v \<Rightarrow> v
              | None \<Rightarrow> ''call_'' @ str_int (time_ms env (ticks s1)));
         n = (case nonempty (tc_name tc) of Some v \<Rightarrow> v | None \<Rightarrow> ''worlds'')
     in history (state_of (handle_tool_calls env (pre @ [tc]) s)) =
          history s1 @
          AssistantToolCall [\<lparr>call_id = i, call_name = n, call_arguments = dumps env True args\<rparr>] #
          (case snd (fun_2 env args) of
             None \<Rightarrow> [ToolResult i n
                         (dumps env False
                            (PList (tool_output_chunks s1 @ stored (fst (fun_2 env args)))))]
           | Some e \<Rightarrow> []) \<and>
        tool_name (state_of (handle_tool_calls env (pre @ [tc]) s)) = Some n"
proof -
  have "handle_tool_calls env (pre @ [tc]) s = handle_tool_call env tc s1"
    using assms(1) by (simp add: handle_tool_calls_append split: outcome.splits)
  then show ?thesis
    using handle_tool_call_parsed [OF assms(2) assms(3)]
    by (simp add: Let_def fst_id_of name_of_def split: option.splits)
qed

theorem name_and_id_of_parsing_fragment_witness:
  \<open>history (state_of (handle_tool_calls (example_env ([], None) ([], None))
       [\<lparr>tc_id = Some ''call_A'', tc_name = Some ''fun_2'', tc_arguments = Some ''{"a":''\<rparr>,
        \<lparr>tc_id = None, tc_name = None, tc_arguments = Some ''1,"b":2}''\<rparr>]
       (start_state ''add 1 and 2'' []))) =
     [User ''add 1 and 2'',
      AssistantToolCall
        [\<lparr>call_id = ''call_1700000000000'', call_name = ''worlds'',
          call_arguments = dumps_example True (PDict [(''a'', PInt 1), (''b'', PInt 2)])\<rparr>],
      ToolResult ''call_1700000000000'' ''worlds''
        (dumps_example False
           (PList (stored (fun_2_items @
              [PDict [(''display'', PStr ''result = 3''), (''store'', PBool True)]]))))] \<and>
   tool_name (state_of (handle_tool_calls (example_env ([], None) ([], None))
       [\<lparr>tc_id = Some ''call_A'', tc_name = Some ''fun_2'', tc_arguments = Some ''{"a":''\<rparr>,
        \<lparr>tc_id = None, tc_name = None, tc_arguments = Some ''1,"b":2}''\<rparr>]
       (start_state ''add 1 and 2'' []))) = Some ''worlds''\<close>
proof -
  let ?env = "example_env ([], None) ([], None)"
  let ?s0 = "start_state ''add 1 and 2'' []"
  let ?tcA = \<open>\<lparr>tc_id = Some ''call_A'', tc_name = Some ''fun_2'', tc_arguments = Some ''{"a":''\<rparr>\<close>
  let ?tc = \<open>\<lparr>tc_id = None, tc_name = None, tc_arguments = Some ''1,"b":2}''\<rparr>\<close>
  let ?s1 = \<open>?s0\<lparr>tool_name := Some ''fun_2'', partial_args := ''{"a":''\<rparr>\<close>
  let ?args = "PDict [(''a'', PInt 1), (''b'', PInt 2)]"
  let ?items = "fun_2_items @ [PDict [(''display'', PStr ''result = 3''), (''store'', PBool True)]]"
  have a: "handle_tool_calls ?env [?tcA] ?s0 = Done ?s1"
    by (simp add: handle_tool_call_cases id_of_def name_of_def nonempty_def loads_example_def
          start_state_def)
  have b: \<open>nonempty (tc_arguments ?tc) = Some ''1,"b":2}''\<close>
    by simp
  have c: \<open>loads ?env (partial_args ?s1 @ ''1,"b":2}'') = Inr ?args\<close>
    by (simp add: loads_example_def start_state_def)
  have f: "snd (fun_2 ?env ?args) = None" "fst (fun_2 ?env ?args) = ?items"
    by (simp_all add: fun_2_example)
  have t: "str_int (time_ms ?env (ticks ?s1)) = ''1700000000000''"
    by (simp add: start_state_def str_int_def str_nat.simps digit_char_def)
  have e: "tool_output_chunks ?s1 = []" "history ?s1 = [User ''add 1 and 2'']"
    by (simp_all add: start_state_def)
  have n: "nonempty (tc_id ?tc) = None" "nonempty (tc_name ?tc) = None"
    by (simp_all add: nonempty_def)
  from name_and_id_of_parsing_fragment [OF a b c, unfolded Let_def n f t e]
  show ?thesis
    by (simp del: dumps_example.simps)
qed

section \<open>Which handler a dispatch runs\<close>




section \<open>The transcript after a cycle with a tool call\<close>

text \<open>
  Claim C2, as it is written, is about any full cycle that triggers a tool call. When the
  stream carries two tool calls, both are dispatched in the same cycle, and the last four
  messages are then a tool message, a tool-call message, a tool message and the closing
  text: the first of them is not the user message.
\<close>

theorem two_calls_last_four:
  "raised_of (ask_question (example_env (two_calls, None) (closing, None)) ''add twice'' []) = None \<and>
   map role_of (history (state_of
       (ask_question (example_env (two_calls, None) (closing, None)) ''add twice'' []))) =
     [RUser, RAssistantToolCall, RToolResult, RAssistantToolCall, RToolResult, RAssistantText] \<and>
   map role_of (last_n 4 (history (state_of
       (ask_question (example_env (two_calls, None) (closing, None)) ''add twice'' [])))) =
     [RToolResult, RAssistantToolCall, RToolResult, RAssistantText]"
  by (simp add: two_calls_run last_n_def del: dumps_example.simps)

text \<open>
  Claim C2, amended. After a cycle whose \<^verbatim>\<open>try\<close> body is left normally, the messages
  appended to \<^verbatim>\<open>history\<close> are the user message, then for each dispatch a tool-call
  message immediately followed by the tool message with the same id and name, then the
  closing text. When exactly one tool call was dispatched, the last four messages are the
  user message, the tool-call message, the tool message and the closing text, and the id of
  the tool message is the id of the tool call.
\<close>

theorem transcript_of_full_cycle:
  assumes "create env (primary_request (h @ [User q])) = Inr stream"
      and "try_body env stream (start_state q h) = Done s"
  shows
    "\<exists>ms. history (state_of (ask_question env q h)) =
            h @ [User q] @ ms @ [AssistantText (collected s)] \<and>
          paired ms \<and>
          (length (filter (\<lambda>m. role_of m = RAssistantToolCall) ms) = 1 \<longrightarrow>
             (\<exists>c i n x.
                last_n 4 (history (state_of (ask_question env q h))) =
                  [User q, AssistantToolCall [c], ToolResult i n x, AssistantText (collected s)] \<and>
                call_id c = i \<and> call_name c = n))"
proof -
  have "appends (start_state q h) (Done s)"
    using try_body_appends [of "start_state q h" env stream] assms(2) by simp
  then obtain ms where ms: "history s = (h @ [User q]) @ ms" "paired ms"
    by (auto simp: appends_def)
  have a: "history (state_of (ask_question env q h)) = h @ [User q] @ ms @ [AssistantText (collected s)]"
    by (simp add: ask_question_opened [OF assms(1)] assms(2) finalize_def ms)
  have "\<exists>c i n x.
          last_n 4 (history (state_of (ask_question env q h))) =
            [User q, AssistantToolCall [c], ToolResult i n x, AssistantText (collected s)] \<and>
          call_id c = i \<and> call_name c = n"
    if "length (filter (\<lambda>m. role_of m = RAssistantToolCall) ms) = 1"
  proof -
    from paired_one_call [OF ms(2) that] obtain c i n x where
      "ms = [AssistantToolCall [c], ToolResult i n x]" "call_id c = i" "call_name c = n"
      by blast
    then show ?thesis
      by (simp add: a last_n_def)
  qed
  with a ms(2) show ?thesis
    by blast
qed

theorem transcript_of_full_cycle_witness:
  "last_n 4 (history (state_of
       (ask_question (example_env (one_call, None) (closing, None)) ''add 1 and 2'' []))) =
     [User ''add 1 and 2'',
      AssistantToolCall
        [\<lparr>call_id = ''call_1700000000000'', call_name = ''worlds'',
          call_arguments = dumps_example True (PDict [(''a'', PInt 1), (''b'', PInt 2)])\<rparr>],
      ToolResult ''call_1700000000000'' ''worlds''
        (dumps_example False (PList (stored (fun_2_items @ [result_item ''3''])))),
      AssistantText ''Let me add. Here is the result.'']"
proof -
  let ?env = "example_env (one_call, None) (closing, None)"
  let ?r = "ask_question ?env ''add 1 and 2'' []"
  let ?t = "''Let me add. Here is the result.''"
  have c: "create ?env (primary_request ([] @ [User ''add 1 and 2''])) = Inr (one_call, None)"
    by (simp add: create_example)
  note s = one_call_body
  from transcript_of_full_cycle [OF c s, simplified state.simps] obtain ms where
    ms: "history (state_of ?r) = [] @ [User ''add 1 and 2''] @ ms @ [AssistantText ?t]"
    "length (filter (\<lambda>m. role_of m = RAssistantToolCall) ms) = 1 \<longrightarrow>
       (\<exists>c i n x. last_n 4 (history (state_of ?r)) =
          [User ''add 1 and 2'', AssistantToolCall [c], ToolResult i n x, AssistantText ?t] \<and>
          call_id c = i \<and> call_name c = n)"
    by blast
  from ms(1) have "ms =
     [AssistantToolCall
        [\<lparr>call_id = ''call_1700000000000'', call_name = ''worlds'',
          call_arguments = dumps_example True (PDict [(''a'', PInt 1), (''b'', PInt 2)])\<rparr>],
      ToolResult ''call_1700000000000'' ''worlds''
        (dumps_example False (PList (stored (fun_2_items @ [result_item ''3'']))))]"
    by (simp add: one_call_run del: dumps_example.simps)
  with ms(2) obtain c i n x where
    "last_n 4 (history (state_of ?r)) =
       [User ''add 1 and 2'', AssistantToolCall [c], ToolResult i n x, AssistantText ?t]"
    by auto
  then show ?thesis
    by (simp add: one_call_run last_n_def del: dumps_example.simps)
qed

section \<open>The accumulator of the stored display values\<close>

text \<open>
  Claim C7, as it is written, says that the tool message of a second dispatch holds only
  what the second run of the tool stored. The list \<^verbatim>\<open>tool_output_chunks\<close> is created
  once, at the start of \<^verbatim>\<open>ask_question\<close> (line 131), and is never emptied. With two
  tool calls in one stream, the content of the second tool message is the serialisation of
  the values stored by the first run (among them \<^verbatim>\<open>result = 3\<close>) followed by those of
  the second run, which is not the serialisation of the values of the second run alone.
\<close>

theorem second_payload_carries_first:
  "history (state_of (ask_question (example_env (two_calls, None) (closing, None)) ''add twice'' []))
     ! 4 =
     ToolResult ''call_B'' ''fun_2''
       (dumps_example False
          (PList
             [PStr ''fun_1fun_1fun_1fun_1'',
              PStr ''fun_2 using proper yield format ** should be stored in history and be showed in terminal **'',
              PDict [(''DICT fun_2'', PStr ''this should be stored in chat history''),
                     (''success'', PBool True), (''result'', fun_2_dict)],
              PStr ''result = 3'',
              PStr ''fun_1fun_1fun_1fun_1'',
              PStr ''fun_2 using proper yield format ** should be stored in history and be showed in terminal **'',
              PDict [(''DICT fun_2'', PStr ''this should be stored in chat history''),
                     (''success'', PBool True), (''result'', fun_2_dict)],
              PStr ''result = 7''])) \<and>
   stored (fst (fun_2 (example_env (two_calls, None) (closing, None))
                  (PDict [(''a'', PInt 3), (''b'', PInt 4)]))) =
     [PStr ''fun_1fun_1fun_1fun_1'',
      PStr ''fun_2 using proper yield format ** should be stored in history and be showed in terminal **'',
      PDict [(''DICT fun_2'', PStr ''this should be stored in chat history''),
             (''success'', PBool True), (''result'', fun_2_dict)],
      PStr ''result = 7''] \<and>
   dumps_example False
     (PList
        [PStr ''fun_1fun_1fun_1fun_1'',
         PStr ''fun_2 using proper yield format ** should be stored in history and be showed in terminal **'',
         PDict [(''DICT fun_2'', PStr ''this should be stored in chat history''),
                (''success'', PBool True), (''result'', fun_2_dict)],
         PStr ''result = 3'',
         PStr ''fun_1fun_1fun_1fun_1'',
         PStr ''fun_2 using proper yield format ** should be stored in history and be showed in terminal **'',
         PDict [(''DICT fun_2'', PStr ''this should be stored in chat history''),
                (''success'', PBool True), (''result'', fun_2_dict)],
         PStr ''result = 7'']) \<noteq>
   dumps_example False
     (PList
        [PStr ''fun_1fun_1fun_1fun_1'',
         PStr ''fun_2 using proper yield format ** should be stored in history and be showed in terminal **'',
         PDict [(''DICT fun_2'', PStr ''this should be stored in chat history''),
                (''success'', PBool True), (''result'', fun_2_dict)],
         PStr ''result = 7''])"
proof -
  have a: "stored (fun_2_items @ [result_item ''3'']) @ stored (fun_2_items @ [result_item ''7'']) =
     [PStr ''fun_1fun_1fun_1fun_1'',
      PStr ''fun_2 using proper yield format ** should be stored in history and be showed in terminal **'',
      PDict [(''DICT fun_2'', PStr ''this should be stored in chat history''),
             (''success'', PBool True), (''result'', fun_2_dict)],
      PStr ''result = 3'',
      PStr ''fun_1fun_1fun_1fun_1'',
      PStr ''fun_2 using proper yield format ** should be stored in history and be showed in terminal **'',
      PDict [(''DICT fun_2'', PStr ''this should be stored in chat history''),
             (''success'', PBool True), (''result'', fun_2_dict)],
      PStr ''result = 7'']"
    by (simp add: stored_append stored_result_item stored_fun_2_items)
  have b: "stored (fst (fun_2 (example_env (two_calls, None) (closing, None))
                  (PDict [(''a'', PInt 3), (''b'', PInt 4)]))) =
             stored (fun_2_items @ [result_item ''7''])"
    by (simp add: fun_2_example_ints str_int_examples)
  have c: "stored (fun_2_items @ [result_item ''7'']) =
     [PStr ''fun_1fun_1fun_1fun_1'',
      PStr ''fun_2 using proper yield format ** should be stored in history and be showed in terminal **'',
      PDict [(''DICT fun_2'', PStr ''this should be stored in chat history''),
             (''success'', PBool True), (''result'', fun_2_dict)],
      PStr ''result = 7'']"
    by (simp add: stored_append stored_result_item stored_fun_2_items)
  have h: "history (state_of (ask_question (example_env (two_calls, None) (closing, None)) ''add twice'' []))
     ! 4 =
     ToolResult ''call_B'' ''fun_2''
       (dumps_example False
          (PList (stored (fun_2_items @ [result_item ''3'']) @ stored (fun_2_items @ [result_item ''7'']))))"
    by (simp add: two_calls_run del: dumps_example.simps)
  from h [unfolded a] b [unfolded c] two_calls_second_payload show ?thesis
    by (intro conjI)
qed


text \<open>
  Claim C7, amended. The accumulator is one list for the whole call of
  \<^verbatim>\<open>ask_question\<close>: it is empty when the call starts, and it is never emptied while
  the stream is consumed. The content of every tool message is the serialisation of the
  whole list at that moment. So when two tool calls are dispatched one after the other, the
  first tool message holds the values stored by the first run, and the second holds the
  values stored by the first run followed by those stored by the second.
\<close>

theorem accumulator_spans_the_cycle:
  assumes "nonempty (tc_arguments tc1) = Some p1"
      and "loads env (partial_args s @ p1) = Inr args1"
      and "snd (fun_2 env args1) = None"
      and "nonempty (tc_arguments tc2) = Some p2"
      and "loads env p2 = Inr args2"
      and "snd (fun_2 env args2) = None"
  shows
    "tool_output_chunks (start_state q h) = [] \<and>
     (\<exists>xs. tool_output_chunks (state_of (primary_loop env cs s0)) = tool_output_chunks s0 @ xs) \<and>
     (\<exists>c1 i1 n1 c2 i2 n2.
        history (state_of (handle_tool_calls env [tc1, tc2] s)) =
          history s @
          [AssistantToolCall [c1],
           ToolResult i1 n1
             (dumps env False (PList (tool_output_chunks s @ stored (fst (fun_2 env args1))))),
           AssistantToolCall [c2],
           ToolResult i2 n2
             (dumps env False
                (PList (tool_output_chunks s @ stored (fst (fun_2 env args1)) @
                        stored (fst (fun_2 env args2)))))])"
proof (intro conjI)
  show "tool_output_chunks (start_state q h) = []"
    by simp
  show "\<exists>xs. tool_output_chunks (state_of (primary_loop env cs s0)) = tool_output_chunks s0 @ xs"
    by (rule primary_loop_accumulates)
  obtain items1 where f1: "fun_2 env args1 = (items1, None)"
    using assms(3) by (cases "fun_2 env args1") simp
  obtain items2 where f2: "fun_2 env args2 = (items2, None)"
    using assms(6) by (cases "fun_2 env args2") simp
  note d1 = handle_tool_call_done [OF assms(1) assms(2) f1]
  let ?s1 = "state_of (handle_tool_call env tc1 s)"
  have p: "partial_args ?s1 = []" "tool_output_chunks ?s1 = tool_output_chunks s @ stored items1"
    by (simp_all add: d1)
  have l: "loads env (partial_args ?s1 @ p2) = Inr args2"
    by (simp add: p assms(5))
  note d2 = handle_tool_call_done [OF assms(4) l f2]
  show "\<exists>c1 i1 n1 c2 i2 n2.
        history (state_of (handle_tool_calls env [tc1, tc2] s)) =
          history s @
          [AssistantToolCall [c1],
           ToolResult i1 n1
             (dumps env False (PList (tool_output_chunks s @ stored (fst (fun_2 env args1))))),
           AssistantToolCall [c2],
           ToolResult i2 n2
             (dumps env False
                (PList (tool_output_chunks s @ stored (fst (fun_2 env args1)) @
                        stored (fst (fun_2 env args2)))))]"
    using d1 d2 by (simp add: f1 f2)
qed

theorem accumulator_spans_the_cycle_witness:
  \<open>\<exists>c1 i1 n1 c2 i2 n2.
     history (state_of (handle_tool_calls (example_env ([], None) ([], None))
        [\<lparr>tc_id = Some ''call_A'', tc_name = Some ''fun_2'', tc_arguments = Some ''{"a":1,"b":2}''\<rparr>,
         \<lparr>tc_id = Some ''call_B'', tc_name = Some ''fun_2'', tc_arguments = Some ''{"a":3,"b":4}''\<rparr>]
        (start_state ''add twice'' []))) =
       [User ''add twice'',
        AssistantToolCall [c1],
        ToolResult i1 n1
          (dumps_example False (PList (stored (fun_2_items @ [result_item ''3''])))),
        AssistantToolCall [c2],
        ToolResult i2 n2
          (dumps_example False
             (PList (stored (fun_2_items @ [result_item ''3'']) @
                     stored (fun_2_items @ [result_item ''7'']))))]\<close>
proof -
  let ?env = "example_env ([], None) ([], None)"
  let ?s0 = "start_state ''add twice'' []"
  let ?tc1 = \<open>\<lparr>tc_id = Some ''call_A'', tc_name = Some ''fun_2'', tc_arguments = Some ''{"a":1,"b":2}''\<rparr>\<close>
  let ?tc2 = \<open>\<lparr>tc_id = Some ''call_B'', tc_name = Some ''fun_2'', tc_arguments = Some ''{"a":3,"b":4}''\<rparr>\<close>
  let ?args1 = "PDict [(''a'', PInt 1), (''b'', PInt 2)]"
  let ?args2 = "PDict [(''a'', PInt 3), (''b'', PInt 4)]"
  have a1: \<open>nonempty (tc_arguments ?tc1) = Some ''{"a":1,"b":2}''\<close>
    and a2: \<open>loads ?env (partial_args ?s0 @ ''{"a":1,"b":2}'') = Inr ?args1\<close>
    and a3: "snd (fun_2 ?env ?args1) = None"
    and a4: \<open>nonempty (tc_arguments ?tc2) = Some ''{"a":3,"b":4}''\<close>
    and a5: \<open>loads ?env ''{"a":3,"b":4}'' = Inr ?args2\<close>
    and a6: "snd (fun_2 ?env ?args2) = None"
    by (simp_all add: loads_example_def fun_2_example_ints)
  have f: "fst (fun_2 ?env ?args1) = fun_2_items @ [result_item ''3'']"
    "fst (fun_2 ?env ?args2) = fun_2_items @ [result_item ''7'']"
    by (simp_all add: fun_2_example_ints str_int_examples)
  have e: "tool_output_chunks ?s0 = []" "history ?s0 = [User ''add twice'']"
    by simp_all
  from accumulator_spans_the_cycle [OF a1 a2 a3 a4 a5 a6, of "''add twice''" "[]" "[]" ?s0]
  have "\<exists>c1 i1 n1 c2 i2 n2.
        history (state_of (handle_tool_calls ?env [?tc1, ?tc2] ?s0)) =
          history ?s0 @
          [AssistantToolCall [c1],
           ToolResult i1 n1
             (dumps ?env False (PList (tool_output_chunks ?s0 @ stored (fst (fun_2 ?env ?args1))))),
           AssistantToolCall [c2],
           ToolResult i2 n2
             (dumps ?env False
                (PList (tool_output_chunks ?s0 @ stored (fst (fun_2 ?env ?args1)) @
                        stored (fst (fun_2 ?env ?args2)))))]"
    by blast
  then show ?thesis
    unfolding f e by (simp del: dumps_example.simps)
qed

section \<open>The closing text\<close>

text \<open>
  Once the primary stream is open, every way of leaving the \<^verbatim>\<open>try\<close> body
  (normally, by \<^verbatim>\<open>KeyboardInterrupt\<close>, or by another exception) appends exactly one
  closing text message: the messages appended after the user message are tool-call and tool
  messages only, followed by one \<^verbatim>\<open>{"role": "assistant", "content": collected}\<close>, where
  \<^verbatim>\<open>collected\<close> is the text accumulated when the body was left. On
  \<^verbatim>\<open>KeyboardInterrupt\<close> the marker is yielded last and the call ends normally. When the
  primary stream is interrupted after the chunks \<open>cs\<close>, the closing text is the
  concatenation of the text deltas of \<open>cs\<close> (the empty string when there is none); when the
  follow-up stream is interrupted after the chunks \<open>fcs\<close>, it is the text of the primary
  stream followed by the text deltas of \<open>fcs\<close>.
\<close>

lemma closing_text_after_opening:
  assumes "create env (primary_request (h @ [User q])) = Inr (cs, ending)"
  shows
    "(\<exists>ms. history (state_of (ask_question env q h)) =
             h @ [User q] @ ms @
             [AssistantText (collected (state_of (try_body env (cs, ending) (start_state q h))))] \<and>
           (\<forall>m \<in> set ms. role_of m \<noteq> RAssistantText)) \<and>
     (raised_of (try_body env (cs, ending) (start_state q h)) = Some KeyboardInterrupt \<longrightarrow>
        raised_of (ask_question env q h) = None \<and>
        yielded (state_of (ask_question env q h)) =
          yielded (state_of (try_body env (cs, ending) (start_state q h))) @ [PStr interrupted_marker]) \<and>
     (raised_of (try_body env (cs, ending) (start_state q h)) \<noteq> Some KeyboardInterrupt \<longrightarrow>
        raised_of (ask_question env q h) = raised_of (try_body env (cs, ending) (start_state q h)) \<and>
        yielded (state_of (ask_question env q h)) =
          yielded (state_of (try_body env (cs, ending) (start_state q h)))) \<and>
     (\<forall>s1. primary_loop env cs (start_state q h) = Done s1 \<and> ending = Some KeyboardInterrupt \<longrightarrow>
        ask_question env q h =
          Done (s1\<lparr>yielded := yielded s1 @ [PStr interrupted_marker],
                   history := history s1 @ [AssistantText (concat (map chunk_text cs))]\<rparr>)) \<and>
     (\<forall>s1 fcs. primary_loop env cs (start_state q h) = Done s1 \<and> ending = None \<and>
        followup_wanted s1 \<and>
        create env (followup_request (history s1)) = Inr (fcs, Some KeyboardInterrupt) \<longrightarrow>
        raised_of (ask_question env q h) = None \<and>
        history (state_of (ask_question env q h)) =
          history s1 @ [AssistantText (concat (map chunk_text cs) @ concat (map chunk_text fcs))] \<and>
        yielded (state_of (ask_question env q h)) =
          yielded s1 @ map PStr (filter (\<lambda>d. d \<noteq> []) (map chunk_text fcs)) @
          [PStr interrupted_marker])"
proof -
  let ?s0 = "start_state q h"
  let ?out = "try_body env (cs, ending) ?s0"
  have ask: "ask_question env q h = handle_exit ?out"
    by (rule ask_question_opened [OF assms])
  obtain ms where ms: "history (state_of ?out) = history ?s0 @ ms"
      "\<forall>m \<in> set ms. role_of m \<noteq> RAssistantText"
    using appends_no_text [OF try_body_appends [of ?s0 env "(cs, ending)"]] by blast
  have 1: "\<exists>ms. history (state_of (ask_question env q h)) =
             h @ [User q] @ ms @ [AssistantText (collected (state_of ?out))] \<and>
           (\<forall>m \<in> set ms. role_of m \<noteq> RAssistantText)"
    using ms by (auto simp: ask handle_exit_history)
  have 2: "raised_of ?out = Some KeyboardInterrupt \<longrightarrow>
        raised_of (ask_question env q h) = None \<and>
        yielded (state_of (ask_question env q h)) = yielded (state_of ?out) @ [PStr interrupted_marker]"
    unfolding ask using handle_exit_interrupted [of ?out] by blast
  have 3: "raised_of ?out \<noteq> Some KeyboardInterrupt \<longrightarrow>
        raised_of (ask_question env q h) = raised_of ?out \<and>
        yielded (state_of (ask_question env q h)) = yielded (state_of ?out)"
    unfolding ask using handle_exit_other [of ?out] by blast
  have 4: "ask_question env q h =
          Done (s1\<lparr>yielded := yielded s1 @ [PStr interrupted_marker],
                   history := history s1 @ [AssistantText (concat (map chunk_text cs))]\<rparr>)"
    if "primary_loop env cs ?s0 = Done s1 \<and> ending = Some KeyboardInterrupt" for s1
  proof -
    from that have "collected s1 = concat (map chunk_text cs)"
      using primary_loop_collected [of env cs ?s0 s1] by simp
    with that show ?thesis
      by (simp add: ask try_body_def phase1_def finalize_def)
  qed
  have 5: "raised_of (ask_question env q h) = None \<and>
        history (state_of (ask_question env q h)) =
          history s1 @ [AssistantText (concat (map chunk_text cs) @ concat (map chunk_text fcs))] \<and>
        yielded (state_of (ask_question env q h)) =
          yielded s1 @ map PStr (filter (\<lambda>d. d \<noteq> []) (map chunk_text fcs)) @
          [PStr interrupted_marker]"
    if "primary_loop env cs ?s0 = Done s1 \<and> ending = None \<and> followup_wanted s1 \<and>
        create env (followup_request (history s1)) = Inr (fcs, Some KeyboardInterrupt)" for s1 fcs
  proof -
    from that have c: "collected s1 = concat (map chunk_text cs)"
      using primary_loop_collected [of env cs ?s0 s1] by simp
    from that have "phase2 env s1 =
        Raised KeyboardInterrupt
          (s1\<lparr>requests := requests s1 @ [followup_request (history s1)],
              yielded := yielded s1 @ map PStr (filter (\<lambda>d. d \<noteq> []) (map chunk_text fcs)),
              collected := collected s1 @ concat (map chunk_text fcs)\<rparr>)"
      using phase2_interrupted [of s1 env fcs "Some KeyboardInterrupt"] by (simp add: Let_def)
    with that c show ?thesis
      by (simp add: ask try_body_def phase1_def finalize_def)
  qed
  from 1 2 3 4 5 show ?thesis
    by blast
qed

lemma closing_text_examples:
  "ask_question (example_env ([text_chunk ''Hel''], Some KeyboardInterrupt) ([], None)) ''hi'' [] =
     Done \<lparr>history = [User ''hi'', AssistantText ''Hel''], collected = ''Hel'',
           partial_args = [], tool_name = None, tool_output_chunks = [],
           yielded = [PStr ''Hel'', PStr interrupted_marker],
           requests = [primary_request [User ''hi'']], ticks = 0\<rparr> \<and>
   ask_question (example_env ([], Some KeyboardInterrupt) ([], None)) ''hi'' [] =
     Done \<lparr>history = [User ''hi'', AssistantText []], collected = [],
           partial_args = [], tool_name = None, tool_output_chunks = [],
           yielded = [PStr interrupted_marker],
           requests = [primary_request [User ''hi'']], ticks = 0\<rparr> \<and>
   raised_of (ask_question
      (example_env (one_call, None) ([text_chunk ''Here is ''], Some KeyboardInterrupt))
      ''add 1 and 2'' []) = None \<and>
   history (state_of (ask_question
      (example_env (one_call, None) ([text_chunk ''Here is ''], Some KeyboardInterrupt))
      ''add 1 and 2'' [])) =
     [User ''add 1 and 2'',
      AssistantToolCall
        [\<lparr>call_id = ''call_1700000000000'', call_name = ''worlds'',
          call_arguments = dumps_example True (PDict [(''a'', PInt 1), (''b'', PInt 2)])\<rparr>],
      ToolResult ''call_1700000000000'' ''worlds''
        (dumps_example False (PList (stored (fun_2_items @ [result_item ''3''])))),
      AssistantText ''Let me add. Here is ''] \<and>
   yielded (state_of (ask_question
      (example_env (one_call, None) ([text_chunk ''Here is ''], Some KeyboardInterrupt))
      ''add 1 and 2'' [])) =
     PStr ''Let me add. '' # shown (fun_2_items @ [result_item ''3'']) @
     [PStr ''Here is '', PStr interrupted_marker]"
proof -
  let ?e1 = "example_env ([text_chunk ''Hel''], Some KeyboardInterrupt) ([], None)"
  let ?e2 = "example_env ([], Some KeyboardInterrupt) ([], None)"
  let ?e3 = "example_env (one_call, None) ([text_chunk ''Here is ''], Some KeyboardInterrupt)"
  let ?s0 = "start_state ''hi'' []"
  have c1: "create ?e1 (primary_request ([] @ [User ''hi''])) = Inr ([text_chunk ''Hel''], Some KeyboardInterrupt)"
    and c2: "create ?e2 (primary_request ([] @ [User ''hi''])) = Inr ([], Some KeyboardInterrupt)"
    and c3: "create ?e3 (primary_request ([] @ [User ''add 1 and 2''])) = Inr (one_call, None)"
    by (simp_all add: create_example)
  have l1: "primary_loop ?e1 [text_chunk ''Hel''] ?s0 =
              Done (?s0\<lparr>yielded := [PStr ''Hel''], collected := ''Hel''\<rparr>) \<and>
            Some KeyboardInterrupt = Some KeyboardInterrupt"
    by (simp add: handle_chunk_text)
  have l2: "primary_loop ?e2 [] ?s0 = Done ?s0 \<and> Some KeyboardInterrupt = Some KeyboardInterrupt"
    by simp
  note l3 = one_call_loop [of "(one_call, None)" "([text_chunk ''Here is ''], Some KeyboardInterrupt)"]
  have w3: "followup_wanted
     \<lparr>history =
             [User ''add 1 and 2'',
              AssistantToolCall
                [\<lparr>call_id = ''call_1700000000000'', call_name = ''worlds'',
                  call_arguments = dumps_example True (PDict [(''a'', PInt 1), (''b'', PInt 2)])\<rparr>],
              ToolResult ''call_1700000000000'' ''worlds''
                (dumps_example False (PList (stored (fun_2_items @ [result_item ''3'']))))],
           collected = ''Let me add. '',
           partial_args = [],
           tool_name = Some ''worlds'',
           tool_output_chunks = stored (fun_2_items @ [result_item ''3'']),
           yielded = PStr ''Let me add. '' # shown (fun_2_items @ [result_item ''3'']),
           requests = [primary_request [User ''add 1 and 2'']],
           ticks = 1\<rparr>"
    by (simp add: followup_wanted_def nonempty_def stored_append stored_result_item)
  from closing_text_after_opening [OF c1] l1
  have r1: "ask_question ?e1 ''hi'' [] =
          Done (?s0\<lparr>yielded := [PStr ''Hel''], collected := ''Hel'',
                  yielded := yielded (?s0\<lparr>yielded := [PStr ''Hel''], collected := ''Hel''\<rparr>) @
                             [PStr interrupted_marker],
                  history := history (?s0\<lparr>yielded := [PStr ''Hel''], collected := ''Hel''\<rparr>) @
                             [AssistantText (concat (map chunk_text [text_chunk ''Hel'']))]\<rparr>)"
    by blast
  from closing_text_after_opening [OF c2] l2
  have r2: "ask_question ?e2 ''hi'' [] =
          Done (?s0\<lparr>yielded := yielded ?s0 @ [PStr interrupted_marker],
                  history := history ?s0 @ [AssistantText (concat (map chunk_text []))]\<rparr>)"
    by blast
  from closing_text_after_opening [OF c3] l3 w3
  have r3: "raised_of (ask_question ?e3 ''add 1 and 2'' []) = None \<and>
     history (state_of (ask_question ?e3 ''add 1 and 2'' [])) =
       [User ''add 1 and 2'',
        AssistantToolCall
          [\<lparr>call_id = ''call_1700000000000'', call_name = ''worlds'',
            call_arguments = dumps_example True (PDict [(''a'', PInt 1), (''b'', PInt 2)])\<rparr>],
        ToolResult ''call_1700000000000'' ''worlds''
          (dumps_example False (PList (stored (fun_2_items @ [result_item ''3'']))))] @
       [AssistantText (concat (map chunk_text one_call) @
                       concat (map chunk_text [text_chunk ''Here is '']))] \<and>
     yielded (state_of (ask_question ?e3 ''add 1 and 2'' [])) =
       (PStr ''Let me add. '' # shown (fun_2_items @ [result_item ''3''])) @
       map PStr (filter (\<lambda>d. d \<noteq> []) (map chunk_text [text_chunk ''Here is ''])) @
       [PStr interrupted_marker]"
    by (simp add: create_example del: dumps_example.simps)
  from r1 r2 r3 show ?thesis
    by (simp add: start_state_def one_call_def del: dumps_example.simps)
qed

text \<open>
  Claim C3 says that every call of \<^verbatim>\<open>ask_question\<close> appends exactly one closing
  text message, and that an interruption makes it yield the marker first. The request for
  the primary stream (lines 114--125) is made before the \<^verbatim>\<open>try\<close> statement is
  entered. When the call is interrupted while that request is in flight, the exception
  leaves \<^verbatim>\<open>ask_question\<close> at once: the user message has been appended (line 110),
  nothing is yielded, and no closing text is appended. The request for the follow-up stream
  (line 228) is made inside the \<^verbatim>\<open>try\<close> statement: the same interruption there
  yields the marker (the text \<^verbatim>\<open>[INTERRUPTED]\<close> between two newlines) and
  appends the closing text, as the claim says.
\<close>

theorem interrupted_while_primary_stream_opens:
  "ask_question (opening_env (Inl KeyboardInterrupt) (Inr (closing, None))) ''hi'' [] =
     Raised KeyboardInterrupt
       \<lparr>history = [User ''hi''], collected = [], partial_args = [], tool_name = None,
        tool_output_chunks = [], yielded = [],
        requests = [primary_request [User ''hi'']], ticks = 0\<rparr> \<and>
   raised_of (ask_question (opening_env (Inr (one_call, None)) (Inl KeyboardInterrupt))
      ''add 1 and 2'' []) = None \<and>
   history (state_of (ask_question (opening_env (Inr (one_call, None)) (Inl KeyboardInterrupt))
      ''add 1 and 2'' [])) =
     [User ''add 1 and 2'',
      AssistantToolCall
        [\<lparr>call_id = ''call_1700000000000'', call_name = ''worlds'',
          call_arguments = dumps_example True (PDict [(''a'', PInt 1), (''b'', PInt 2)])\<rparr>],
      ToolResult ''call_1700000000000'' ''worlds''
        (dumps_example False (PList (stored (fun_2_items @ [result_item ''3''])))),
      AssistantText ''Let me add. ''] \<and>
   yielded (state_of (ask_question (opening_env (Inr (one_call, None)) (Inl KeyboardInterrupt))
      ''add 1 and 2'' [])) =
     PStr ''Let me add. '' # shown (fun_2_items @ [result_item ''3'']) @
     [PStr (CHR 0x0A # ''[INTERRUPTED]'' @ [CHR 0x0A])]"
proof -
  have a: "ask_question (opening_env (Inl KeyboardInterrupt) (Inr (closing, None))) ''hi'' [] =
     Raised KeyboardInterrupt
       \<lparr>history = [User ''hi''], collected = [], partial_args = [], tool_name = None,
        tool_output_chunks = [], yielded = [],
        requests = [primary_request [User ''hi'']], ticks = 0\<rparr>"
    by (simp add: ask_question_def create_opening start_state_def)
  have b: "ask_question (opening_env (Inr (one_call, None)) (Inl KeyboardInterrupt))
      ''add 1 and 2'' [] =
     Done \<lparr>history =
             [User ''add 1 and 2'',
              AssistantToolCall
                [\<lparr>call_id = ''call_1700000000000'', call_name = ''worlds'',
                  call_arguments = dumps_example True (PDict [(''a'', PInt 1), (''b'', PInt 2)])\<rparr>],
              ToolResult ''call_1700000000000'' ''worlds''
                (dumps_example False (PList (stored (fun_2_items @ [result_item ''3''])))),
              AssistantText ''Let me add. ''],
           collected = ''Let me add. '',
           partial_args = [],
           tool_name = Some ''worlds'',
           tool_output_chunks = stored (fun_2_items @ [result_item ''3'']),
           yielded =
             PStr ''Let me add. '' # shown (fun_2_items @ [result_item ''3'']) @
             [PStr (CHR 0x0A # ''[INTERRUPTED]'' @ [CHR 0x0A])],
           requests =
             [primary_request [User ''add 1 and 2''],
              followup_request
                [User ''add 1 and 2'',
                 AssistantToolCall
                   [\<lparr>call_id = ''call_1700000000000'', call_name = ''worlds'',
                     call_arguments = dumps_example True (PDict [(''a'', PInt 1), (''b'', PInt 2)])\<rparr>],
                 ToolResult ''call_1700000000000'' ''worlds''
                   (dumps_example False (PList (stored (fun_2_items @ [result_item ''3'']))))]],
           ticks = 1\<rparr>"
    by (simp add: run_simps create_opening fun_2_opening_ints one_call_def stored_append
          stored_result_item interrupted_marker_def del: dumps_example.simps)
  show ?thesis
    unfolding a b by (simp del: dumps_example.simps)
qed

section \<open>The follow-up stream\<close>

text \<open>
  Claim C4. Let the primary stream end without an exception, in state \<open>s1\<close>. The
  requests sent to the provider are then the primary request alone, or the primary request
  and the follow-up request, and the follow-up request is sent exactly when
  \<^verbatim>\<open>tool_output_chunks\<close> is not empty and a tool name is recorded (the second follows
  from the first). In particular no follow-up request is sent when the accumulator is empty,
  that is when the tool output, the serialisation of the accumulator, is the empty array. The
  follow-up request carries the transcript with the tool-call and tool messages and offers
  no tools. Its text deltas are yielded and added to \<^verbatim>\<open>collected\<close> in order, and a
  chunk without tool calls is handled by the follow-up loop exactly as by the primary loop.
\<close>

theorem followup_gate:
  assumes "create env (primary_request (h @ [User q])) = Inr stream"
      and "phase1 env stream (start_state q h) = Done s1"
  shows
    "requests (state_of (ask_question env q h)) =
       (if tool_output_chunks s1 \<noteq> [] \<and> nonempty (tool_name s1) \<noteq> None
        then [primary_request (h @ [User q]), followup_request (history s1)]
        else [primary_request (h @ [User q])]) \<and>
     (tool_output_chunks s1 = [] \<longrightarrow>
        requests (state_of (ask_question env q h)) = [primary_request (h @ [User q])]) \<and>
     (tool_output_chunks s1 \<noteq> [] \<longrightarrow> nonempty (tool_name s1) \<noteq> None) \<and>
     (\<forall>i n x. last (history s1) = ToolResult i n x \<longrightarrow>
        x = dumps env False (PList (tool_output_chunks s1))) \<and>
     req_tools (followup_request (history s1)) = None \<and>
     req_messages (followup_request (history s1)) = system_prompt # history s1 \<and>
     (\<forall>fcs ending.
        tool_output_chunks s1 \<noteq> [] \<and>
        create env (followup_request (history s1)) = Inr (fcs, ending) \<longrightarrow>
        raised_of (try_body env stream (start_state q h)) = ending \<and>
        yielded (state_of (try_body env stream (start_state q h))) =
          yielded s1 @ map PStr (filter (\<lambda>d. d \<noteq> []) (map chunk_text fcs)) \<and>
        collected (state_of (try_body env stream (start_state q h))) =
          collected s1 @ concat (map chunk_text fcs)) \<and>
     (\<forall>c s.
        (\<forall>choice rest. choices c = Some (choice # rest) \<longrightarrow>
           tool_calls choice = None \<or> tool_calls choice = Some []) \<longrightarrow>
        handle_chunk env c s = Done (handle_followup_chunk c s))"
proof -
  let ?s0 = "start_state q h"
  have ask: "ask_question env q h = handle_exit (try_body env stream ?s0)"
    by (rule ask_question_opened [OF assms(1)])
  have body: "try_body env stream ?s0 = phase2 env s1"
    by (simp add: try_body_def assms(2))
  from phase1_Done [OF assms(2)] have loop: "primary_loop env (fst stream) ?s0 = Done s1"
    by simp
  have r1: "requests s1 = [primary_request (h @ [User q])]"
    using phase1_requests [of env stream ?s0] by (simp add: assms(2))
  have n: "named_when_stored s1"
    using primary_loop_named [of ?s0 env "fst stream"] by (simp add: loop start_state_invariants)
  have p: "payload_current env s1"
    using primary_loop_payload [of env ?s0 "fst stream"] by (simp add: loop start_state_invariants)
  have 1: "requests (state_of (ask_question env q h)) =
       (if tool_output_chunks s1 \<noteq> [] \<and> nonempty (tool_name s1) \<noteq> None
        then [primary_request (h @ [User q]), followup_request (history s1)]
        else [primary_request (h @ [User q])])"
    by (simp add: ask body handle_exit_requests phase2_requests followup_wanted_def r1)
  have 3: "tool_output_chunks s1 \<noteq> [] \<longrightarrow> nonempty (tool_name s1) \<noteq> None"
    using n by (simp add: named_when_stored_def)
  have 4: "\<forall>i n x. last (history s1) = ToolResult i n x \<longrightarrow>
        x = dumps env False (PList (tool_output_chunks s1))"
    using p by (simp add: payload_current_def)
  have 5: "req_tools (followup_request (history s1)) = None"
    "req_messages (followup_request (history s1)) = system_prompt # history s1"
    by (simp_all add: followup_request_def)
  have 6: "raised_of (try_body env stream ?s0) = ending \<and>
        yielded (state_of (try_body env stream ?s0)) =
          yielded s1 @ map PStr (filter (\<lambda>d. d \<noteq> []) (map chunk_text fcs)) \<and>
        collected (state_of (try_body env stream ?s0)) =
          collected s1 @ concat (map chunk_text fcs)"
    if "tool_output_chunks s1 \<noteq> [] \<and> create env (followup_request (history s1)) = Inr (fcs, ending)"
    for fcs ending
  proof -
    from that 3 have w: "followup_wanted s1"
      by (simp add: followup_wanted_def)
    from that have c: "create env (followup_request (history s1)) = Inr (fcs, ending)"
      by simp
    show ?thesis
      unfolding body phase2_interrupted [OF w c]
      by (cases ending) (simp_all add: Let_def)
  qed
  have 7: "handle_chunk env c s = Done (handle_followup_chunk c s)"
    if "\<forall>choice rest. choices c = Some (choice # rest) \<longrightarrow>
           tool_calls choice = None \<or> tool_calls choice = Some []" for c s
    using that by (rule handle_chunk_without_calls)
  have 2: "tool_output_chunks s1 = [] \<longrightarrow>
        requests (state_of (ask_question env q h)) = [primary_request (h @ [User q])]"
    using 1 by simp
  have g6: "\<forall>fcs ending.
        tool_output_chunks s1 \<noteq> [] \<and>
        create env (followup_request (history s1)) = Inr (fcs, ending) \<longrightarrow>
        raised_of (try_body env stream ?s0) = ending \<and>
        yielded (state_of (try_body env stream ?s0)) =
          yielded s1 @ map PStr (filter (\<lambda>d. d \<noteq> []) (map chunk_text fcs)) \<and>
        collected (state_of (try_body env stream ?s0)) =
          collected s1 @ concat (map chunk_text fcs)"
    using 6 by blast
  have g7: "\<forall>c s.
        (\<forall>choice rest. choices c = Some (choice # rest) \<longrightarrow>
           tool_calls choice = None \<or> tool_calls choice = Some []) \<longrightarrow>
        handle_chunk env c s = Done (handle_followup_chunk c s)"
    using 7 by blast
  from 1 2 3 4 5 g6 g7 show ?thesis
    by (intro conjI)
qed

theorem followup_gate_witness:
  "requests (state_of (ask_question (example_env ([text_chunk ''Hello.''], None) (closing, None))
      ''hi'' [])) = [primary_request [User ''hi'']] \<and>
   requests (state_of (ask_question (example_env (one_call, None) (closing, None))
      ''add 1 and 2'' [])) =
     [primary_request [User ''add 1 and 2''],
      followup_request
        [User ''add 1 and 2'',
         AssistantToolCall
           [\<lparr>call_id = ''call_1700000000000'', call_name = ''worlds'',
             call_arguments = dumps_example True (PDict [(''a'', PInt 1), (''b'', PInt 2)])\<rparr>],
         ToolResult ''call_1700000000000'' ''worlds''
           (dumps_example False (PList (stored (fun_2_items @ [result_item ''3'']))))]] \<and>
   yielded (state_of (try_body (example_env (one_call, None) (closing, None)) (one_call, None)
      (start_state ''add 1 and 2'' []))) =
     PStr ''Let me add. '' # shown (fun_2_items @ [result_item ''3'']) @
     [PStr ''Here is '', PStr ''the result.''] \<and>
   collected (state_of (try_body (example_env (one_call, None) (closing, None)) (one_call, None)
      (start_state ''add 1 and 2'' []))) = ''Let me add. Here is the result.''"
proof -
  let ?ea = "example_env ([text_chunk ''Hello.''], None) (closing, None)"
  let ?eb = "example_env (one_call, None) (closing, None)"
  let ?sa = "(start_state ''hi'' [])\<lparr>yielded := [PStr ''Hello.''], collected := ''Hello.''\<rparr>"
  let ?sb = "\<lparr>history =
             [User ''add 1 and 2'',
              AssistantToolCall
                [\<lparr>call_id = ''call_1700000000000'', call_name = ''worlds'',
                  call_arguments = dumps_example True (PDict [(''a'', PInt 1), (''b'', PInt 2)])\<rparr>],
              ToolResult ''call_1700000000000'' ''worlds''
                (dumps_example False (PList (stored (fun_2_items @ [result_item ''3'']))))],
           collected = ''Let me add. '',
           partial_args = [],
           tool_name = Some ''worlds'',
           tool_output_chunks = stored (fun_2_items @ [result_item ''3'']),
           yielded = PStr ''Let me add. '' # shown (fun_2_items @ [result_item ''3'']),
           requests = [primary_request [User ''add 1 and 2'']],
           ticks = 1\<rparr>"
  have ca: "create ?ea (primary_request ([] @ [User ''hi''])) = Inr ([text_chunk ''Hello.''], None)"
    and cb: "create ?eb (primary_request ([] @ [User ''add 1 and 2''])) = Inr (one_call, None)"
    by (simp_all add: create_example)
  have pa: "phase1 ?ea ([text_chunk ''Hello.''], None) (start_state ''hi'' []) = Done ?sa"
    by (simp add: phase1_def handle_chunk_text)
  have pb: "phase1 ?eb (one_call, None) (start_state ''add 1 and 2'' []) = Done ?sb"
    by (simp add: phase1_def one_call_loop del: dumps_example.simps)
  have na: "tool_output_chunks ?sa = []"
    by simp
  have nb: "tool_output_chunks ?sb \<noteq> [] \<and>
            create ?eb (followup_request (history ?sb)) = Inr (closing, None)"
    by (simp add: create_example stored_append stored_result_item)
  from followup_gate [OF ca pa] na
  have ra: "requests (state_of (ask_question ?ea ''hi'' [])) = [primary_request ([] @ [User ''hi''])]"
    by blast
  from followup_gate [OF cb pb]
  have rb: "requests (state_of (ask_question ?eb ''add 1 and 2'' [])) =
       (if tool_output_chunks ?sb \<noteq> [] \<and> nonempty (tool_name ?sb) \<noteq> None
        then [primary_request ([] @ [User ''add 1 and 2'']), followup_request (history ?sb)]
        else [primary_request ([] @ [User ''add 1 and 2''])])"
    and rc: "\<forall>fcs ending.
        tool_output_chunks ?sb \<noteq> [] \<and>
        create ?eb (followup_request (history ?sb)) = Inr (fcs, ending) \<longrightarrow>
        raised_of (try_body ?eb (one_call, None) (start_state ''add 1 and 2'' [])) = ending \<and>
        yielded (state_of (try_body ?eb (one_call, None) (start_state ''add 1 and 2'' []))) =
          yielded ?sb @ map PStr (filter (\<lambda>d. d \<noteq> []) (map chunk_text fcs)) \<and>
        collected (state_of (try_body ?eb (one_call, None) (start_state ''add 1 and 2'' []))) =
          collected ?sb @ concat (map chunk_text fcs)"
    by blast+
  from rc nb
  have rd: "yielded (state_of (try_body ?eb (one_call, None) (start_state ''add 1 and 2'' []))) =
          yielded ?sb @ map PStr (filter (\<lambda>d. d \<noteq> []) (map chunk_text closing)) \<and>
        collected (state_of (try_body ?eb (one_call, None) (start_state ''add 1 and 2'' []))) =
          collected ?sb @ concat (map chunk_text closing)"
    by blast
  from ra rb rd show ?thesis
    by (simp add: closing_def nonempty_def stored_append stored_result_item
          del: dumps_example.simps)
qed

end
